theory Spec2Isabelle
  imports Complex_Main
begin

section \<open>Data model of gsmlocation.py\<close>

text \<open>
  A Python \<open>datetime\<close> is modelled as the integer number of microseconds since a fixed
  epoch (the resolution of \<open>datetime\<close>), a \<open>timedelta\<close> as a number of microseconds.
\<close>

type_synonym datetime = int

definition timedelta_minutes :: "int \<Rightarrow> int" where
  "timedelta_minutes m = m * 60000000"

text \<open>
  The dataclass \<open>CeldaGSM\<close>. Its fields \<open>latitude\<close> and \<open>longitude\<close> carry the prefix
  \<open>celda_\<close> here, because the dataclass \<open>UbicacionEstimada\<close> has fields of the same name.
  The words that follow \<open>tipo_celda: str\<close> on its line in the source are read as the
  comment they are meant to be. A signal strength is taken to fit 64 bits, the integer
  type that NumPy gives it.
\<close>

record CeldaGSM =
  mcc :: string
  mnc :: string
  lac :: string
  cell_id :: string
  arfcn :: int
  bsic :: int
  signal_strength :: int
  celda_latitude :: real
  celda_longitude :: real
  timestamp :: datetime
  tipo_celda :: string

text \<open>
  Python and NumPy floats are modelled as real numbers. Two effects of machine arithmetic
  that change what the code does are kept. One is nan, the non-real value that the code
  can produce without raising (\<open>np.sqrt\<close> of a negative number) and that arithmetic
  propagates. The other is the rounding of the haversine radicand, which decides whether
  \<open>math.sqrt\<close> raises: the computed radicand is a parameter of the distance function
  below.
\<close>

datatype pyfloat = Fin real | NaN

text \<open>
  The dataclass \<open>UbicacionEstimada\<close>; its field \<open>timestamp\<close> is \<open>ubic_timestamp\<close> here.
\<close>

record UbicacionEstimada =
  latitude :: pyfloat
  longitude :: pyfloat
  precision :: pyfloat
  metodo :: string
  celdas_utilizadas :: "CeldaGSM list"
  ubic_timestamp :: datetime

text \<open>
  An entry of the station database: a dictionary with the keys \<open>lat\<close> and \<open>lon\<close> (so
  never an empty dictionary, which \<open>if ubicacion:\<close> would take for a missing entry).
\<close>

record ubicacion_bd =
  lat :: real
  lon :: real

text \<open>The state of a \<open>TrianguladorGSM\<close>: the station database and the measurement history.\<close>

record TrianguladorGSM =
  estaciones_base :: "string \<rightharpoonup> ubicacion_bd"
  historial_mediciones :: "string \<rightharpoonup> CeldaGSM list"

text \<open>
  \<open>TrianguladorGSM.__init__\<close>: the database is whatever the JSON file holds (a parameter
  here), the history is an empty \<open>defaultdict(list)\<close>.
\<close>

definition TrianguladorGSM_init :: "(string \<rightharpoonup> ubicacion_bd) \<Rightarrow> TrianguladorGSM" where
  "TrianguladorGSM_init bd = \<lparr>estaciones_base = bd, historial_mediciones = Map.empty\<rparr>"

text \<open>Reading \<open>d[k]\<close> in a \<open>defaultdict(list)\<close>: a missing key reads as the empty list.\<close>

definition dd_get :: "('k \<rightharpoonup> 'a list) \<Rightarrow> 'k \<Rightarrow> 'a list" where
  "dd_get d k = (case d k of None \<Rightarrow> [] | Some xs \<Rightarrow> xs)"

text \<open>The key \<open>f"{celda.mcc}-{celda.mnc}-{celda.lac}-{celda.cell_id}"\<close>.\<close>

definition clave_celda :: "CeldaGSM \<Rightarrow> string" where
  "clave_celda celda = mcc celda @ ''-'' @ mnc celda @ ''-'' @ lac celda @ ''-'' @ cell_id celda"

section \<open>Measurement history\<close>

text \<open>
  \<open>agregar_medicion_celda\<close>: append under the key, then \<open>pop(0)\<close> when more than 50 entries
  are held. \<open>pop(0)\<close> is \<open>tl\<close>: the list has more than 50 entries there.
\<close>

definition agregar_medicion_celda :: "TrianguladorGSM \<Rightarrow> CeldaGSM \<Rightarrow> TrianguladorGSM" where
  "agregar_medicion_celda tri celda =
     (let clave = clave_celda celda;
          h1 = (historial_mediciones tri)(clave \<mapsto> dd_get (historial_mediciones tri) clave @ [celda]);
          h2 = (if length (dd_get h1 clave) > 50 then h1(clave \<mapsto> tl (dd_get h1 clave)) else h1)
      in tri\<lparr>historial_mediciones := h2\<rparr>)"


section \<open>Faults and NumPy arithmetic\<close>

datatype fault = ValueError | ZeroDivisionError

definition bindE :: "'e + 'a \<Rightarrow> ('a \<Rightarrow> 'e + 'b) \<Rightarrow> 'e + 'b" where
  "bindE m f = (case m of Inl e \<Rightarrow> Inl e | Inr x \<Rightarrow> f x)"

text \<open>
  \<open>np.mean\<close> of a list of numbers. \<open>triangular_ubicacion\<close> hands the estimators at least
  two pairs, so the list is never empty where the code calls it.
\<close>

definition np_mean :: "real list \<Rightarrow> real" where
  "np_mean xs = sum_list xs / real (length xs)"

text \<open>
  \<open>np.average(xs, weights=ws)\<close> on real numbers: it raises \<open>ZeroDivisionError\<close> when the
  weights sum to zero, and divides the weighted sum by the sum of the weights otherwise.
\<close>

definition np_average :: "real list \<Rightarrow> real list \<Rightarrow> fault + real" where
  "np_average xs ws =
     (if sum_list ws = 0 then Inl ZeroDivisionError
      else Inr (sum_list (map2 (*) xs ws) / sum_list ws))"

text \<open>\<open>np.sqrt\<close>: nan on a negative argument (a warning, no exception).\<close>

definition np_sqrt :: "real \<Rightarrow> pyfloat" where
  "np_sqrt x = (if x < 0 then NaN else Fin (sqrt x))"

text \<open>
  \<open>np.sum\<close> of an array of 64-bit integers wraps around. The signal strengths are taken to
  fit 64 bits each, so that \<open>np.array\<close> makes an \<open>int64\<close> array of them.
\<close>

definition int64 :: "int \<Rightarrow> int" where
  "int64 x = (x + 2 ^ 63) mod 2 ^ 64 - 2 ^ 63"

definition np_sum_int64 :: "int list \<Rightarrow> int" where
  "np_sum_int64 xs = int64 (sum_list xs)"

text \<open>
  Arithmetic on floats that may be nan. A NumPy division by zero gives an infinity; in the
  combiner below, the one place where NumPy can divide by zero, the infinity makes the sum
  of the weights, and with it every output, nan. So \<open>fdiv\<close> gives \<open>NaN\<close> there.
\<close>

fun fadd :: "pyfloat \<Rightarrow> pyfloat \<Rightarrow> pyfloat" where
  "fadd (Fin x) (Fin y) = Fin (x + y)"
| "fadd _ _ = NaN"

fun fmul :: "pyfloat \<Rightarrow> pyfloat \<Rightarrow> pyfloat" where
  "fmul (Fin x) (Fin y) = Fin (x * y)"
| "fmul _ _ = NaN"

fun fdiv :: "pyfloat \<Rightarrow> pyfloat \<Rightarrow> pyfloat" where
  "fdiv (Fin x) (Fin y) = (if y = 0 then NaN else Fin (x / y))"
| "fdiv _ _ = NaN"

definition fsum :: "pyfloat list \<Rightarrow> pyfloat" where
  "fsum xs = foldr fadd xs (Fin 0)"

definition np_average_f :: "pyfloat list \<Rightarrow> pyfloat list \<Rightarrow> fault + pyfloat" where
  "np_average_f xs ws =
     (if fsum ws = Fin 0 then Inl ZeroDivisionError
      else Inr (fdiv (fsum (map2 fmul xs ws)) (fsum ws)))"

section \<open>Geodesy and signal models\<close>

text \<open>
  Method names lose their leading underscore (\<open>_calcular_distancia\<close> is
  \<open>calcular_distancia\<close>, and so on): an Isabelle name starts with a letter.
\<close>

definition radians :: "real \<Rightarrow> real" where
  "radians x = x * pi / 180"

text \<open>\<open>math.atan2(y, x)\<close>: the angle of the point \<open>(x, y)\<close>, in \<open>(-pi, pi]\<close>.\<close>

definition atan2 :: "real \<Rightarrow> real \<Rightarrow> real" where
  "atan2 y x =
     (if 0 < x then arctan (y / x)
      else if x < 0 then (if 0 \<le> y then arctan (y / x) + pi else arctan (y / x) - pi)
      else if 0 < y then pi / 2
      else if y < 0 then - (pi / 2)
      else 0)"

text \<open>
  The radicand \<open>a\<close> of the haversine formula, as lines 279 to 284 of the source write it,
  in exact arithmetic.
\<close>

definition radicando :: "real \<Rightarrow> real \<Rightarrow> real \<Rightarrow> real \<Rightarrow> real" where
  "radicando lat1 lon1 lat2 lon2 =
     (let dlat = radians (lat2 - lat1);
          dlon = radians (lon2 - lon1)
      in sin (dlat / 2) * sin (dlat / 2) +
         cos (radians lat1) * cos (radians lat2) * sin (dlon / 2) * sin (dlon / 2))"

text \<open>
  The source computes the radicand in double precision, where the rounding of \<open>sin\<close> and
  \<open>cos\<close> can leave it just outside the interval from 0 to 1. The value that the machine
  computes for \<open>a\<close> is therefore a parameter \<open>rad\<close> of the model (\<open>radicando\<close> is its
  value in exact arithmetic). \<open>_calcular_distancia\<close> hands \<open>a\<close> and \<open>1 - a\<close> to
  \<open>math.sqrt\<close> as they are, with no \<open>min\<close> or \<open>max\<close>, and \<open>math.sqrt\<close> raises
  \<open>ValueError\<close> on a negative argument.
\<close>

type_synonym radicando_calculado = "real \<Rightarrow> real \<Rightarrow> real \<Rightarrow> real \<Rightarrow> real"

definition calcular_distancia ::
  "radicando_calculado \<Rightarrow> real \<Rightarrow> real \<Rightarrow> real \<Rightarrow> real \<Rightarrow> fault + real" where
  "calcular_distancia rad lat1 lon1 lat2 lon2 =
     (let R = 6371;
          a = rad lat1 lon1 lat2 lon2
      in if a < 0 \<or> 1 - a < 0 then Inl ValueError
         else Inr (R * (2 * atan2 (sqrt a) (sqrt (1 - a)))))"

definition modelo_propagacion_rssi :: "real \<Rightarrow> int \<Rightarrow> real" where
  "modelo_propagacion_rssi distancia rssi_referencia =
     (let PL0 = real_of_int rssi_referencia;
          n = 3
      in PL0 - 10 * n * log 10 (max (distancia * 1000) 1))"

definition rssi_a_tiempo :: "int \<Rightarrow> real" where
  "rssi_a_tiempo rssi = max (- real_of_int rssi / 100) (1 / 1000)"

definition obtener_ubicacion_celda :: "TrianguladorGSM \<Rightarrow> CeldaGSM \<Rightarrow> ubicacion_bd option" where
  "obtener_ubicacion_celda tri celda = estaciones_base tri (clave_celda celda)"

text \<open>
  The loop that keeps the measurements whose cell is in the database, paired with the
  database entry (written twice in the source, in \<open>triangular_ubicacion\<close> and in
  \<open>_estimar_ubicacion_2_celdas\<close>).
\<close>

definition celdas_con_ubicacion :: "TrianguladorGSM \<Rightarrow> CeldaGSM list \<Rightarrow> (CeldaGSM \<times> ubicacion_bd) list" where
  "celdas_con_ubicacion tri celdas =
     concat (map (\<lambda>celda. case obtener_ubicacion_celda tri celda of
                             None \<Rightarrow> [] | Some ubicacion \<Rightarrow> [(celda, ubicacion)]) celdas)"

section \<open>Estimators\<close>

text \<open>
  The loop \<open>error_total += error\<close> of the two objective functions: the errors are added
  in list order, and the first distance that raises ends the loop.
\<close>

fun acumular_errores :: "('a \<Rightarrow> fault + real) \<Rightarrow> real \<Rightarrow> 'a list \<Rightarrow> fault + real" where
  "acumular_errores f error_total [] = Inr error_total"
| "acumular_errores f error_total (c # cs) =
     bindE (f c) (\<lambda>error. acumular_errores f (error_total + error) cs)"

text \<open>
  \<open>scipy.optimize.minimize\<close> (method L-BFGS-B) is a parameter of the model: given the
  objective, the starting point and the bounds (if any) it returns the point \<open>resultado.x\<close>
  when the run reports \<open>success\<close>, and \<open>None\<close> when it does not or when the run raises.
  \<open>resultado.fun\<close> is the objective at that point; an objective that raises there has
  raised during the run, inside the \<open>try\<close> block, and the estimator returns \<open>None\<close>.
\<close>

type_synonym optimizador =
  "(real \<times> real \<Rightarrow> fault + real) \<Rightarrow> real \<times> real \<Rightarrow> ((real \<times> real) \<times> (real \<times> real)) option
     \<Rightarrow> (real \<times> real) option"

definition funcion_error_rssi ::
  "radicando_calculado \<Rightarrow> (CeldaGSM \<times> ubicacion_bd) list \<Rightarrow> real \<times> real \<Rightarrow> fault + real" where
  "funcion_error_rssi rad celdas posicion =
     acumular_errores (\<lambda>(celda, ubicacion).
        bindE (calcular_distancia rad (fst posicion) (snd posicion) (lat ubicacion) (lon ubicacion))
          (\<lambda>distancia_calculada.
             Inr \<bar>modelo_propagacion_rssi distancia_calculada (signal_strength celda)
                  - real_of_int (signal_strength celda)\<bar>)) 0 celdas"

text \<open>
  The estimators stamp their result with \<open>datetime.now()\<close>; the clock reading is the
  parameter \<open>t\<close>.
\<close>

definition triangulacion_rssi ::
  "radicando_calculado \<Rightarrow> optimizador \<Rightarrow> datetime \<Rightarrow> (CeldaGSM \<times> ubicacion_bd) list
     \<Rightarrow> UbicacionEstimada option" where
  "triangulacion_rssi rad minimize t celdas =
     (let lat_inicial = np_mean (map (\<lambda>(_, ubicacion). lat ubicacion) celdas);
          lon_inicial = np_mean (map (\<lambda>(_, ubicacion). lon ubicacion) celdas)
      in case minimize (funcion_error_rssi rad celdas) (lat_inicial, lon_inicial)
                (Some ((lat_inicial - 1 / 10, lat_inicial + 1 / 10),
                       (lon_inicial - 1 / 10, lon_inicial + 1 / 10))) of
           None \<Rightarrow> None
         | Some x \<Rightarrow>
             (case funcion_error_rssi rad celdas x of
                Inl _ \<Rightarrow> None
              | Inr valor \<Rightarrow>
                  Some \<lparr>latitude = Fin (fst x), longitude = Fin (snd x),
                        precision = Fin valor, metodo = ''RSSI'',
                        celdas_utilizadas = map fst celdas, ubic_timestamp = t\<rparr>))"

definition funcion_error_toa ::
  "radicando_calculado \<Rightarrow> (real \<times> real \<times> real) list \<Rightarrow> real \<times> real \<Rightarrow> fault + real" where
  "funcion_error_toa rad tiempos posicion =
     acumular_errores (\<lambda>(lat_bs, lon_bs, tiempo).
        bindE (calcular_distancia rad (fst posicion) (snd posicion) lat_bs lon_bs)
          (\<lambda>distancia. Inr \<bar>distancia / 300000 - tiempo\<bar>)) 0 tiempos"

definition triangulacion_toa ::
  "radicando_calculado \<Rightarrow> optimizador \<Rightarrow> datetime \<Rightarrow> (CeldaGSM \<times> ubicacion_bd) list
     \<Rightarrow> UbicacionEstimada option" where
  "triangulacion_toa rad minimize t celdas =
     (let tiempos = map (\<lambda>(celda, ubicacion).
                      (lat ubicacion, lon ubicacion, rssi_a_tiempo (signal_strength celda))) celdas;
          lat_inicial = np_mean (map (\<lambda>(lat_bs, _, _). lat_bs) tiempos);
          lon_inicial = np_mean (map (\<lambda>(_, lon_bs, _). lon_bs) tiempos)
      in case minimize (funcion_error_toa rad tiempos) (lat_inicial, lon_inicial) None of
           None \<Rightarrow> None
         | Some x \<Rightarrow>
             (case funcion_error_toa rad tiempos x of
                Inl _ \<Rightarrow> None
              | Inr valor \<Rightarrow>
                  Some \<lparr>latitude = Fin (fst x), longitude = Fin (snd x),
                        precision = Fin valor, metodo = ''TOA'',
                        celdas_utilizadas = map fst celdas, ubic_timestamp = t\<rparr>))"

text \<open>
  The weights of \<open>_metodo_centroide\<close>: the signal strengths divided by \<open>np.sum\<close> of them
  when that sum is positive, \<open>np.ones(n) / n\<close> otherwise.
\<close>

definition pesos_centroide :: "int list \<Rightarrow> real list" where
  "pesos_centroide pesos =
     (if np_sum_int64 pesos > 0
      then map (\<lambda>p. real_of_int p / real_of_int (np_sum_int64 pesos)) pesos
      else map (\<lambda>_. 1 / real (length pesos)) pesos)"

definition metodo_centroide ::
  "datetime \<Rightarrow> (CeldaGSM \<times> ubicacion_bd) list \<Rightarrow> fault + UbicacionEstimada" where
  "metodo_centroide t celdas =
     (let lats = map (\<lambda>(_, ubicacion). lat ubicacion) celdas;
          lons = map (\<lambda>(_, ubicacion). lon ubicacion) celdas;
          pesos = pesos_centroide (map (\<lambda>(celda, _). signal_strength celda) celdas)
      in bindE (np_average lats pesos) (\<lambda>lat_centroide.
         bindE (np_average lons pesos) (\<lambda>lon_centroide.
         bindE (np_average (map (\<lambda>x. (x - lat_centroide)\<^sup>2) lats) pesos) (\<lambda>var_lat.
         bindE (np_average (map (\<lambda>x. (x - lon_centroide)\<^sup>2) lons) pesos) (\<lambda>var_lon.
           Inr \<lparr>latitude = Fin lat_centroide, longitude = Fin lon_centroide,
                precision = np_sqrt (var_lat + var_lon), metodo = ''CENTROIDE'',
                celdas_utilizadas = map fst celdas, ubic_timestamp = t\<rparr>)))))"

text \<open>
  \<open>_estimar_ubicacion_2_celdas\<close> calls \<open>_calcular_distancia\<close> outside any \<open>try\<close> block: a
  \<open>ValueError\<close> raised there leaves the method.
\<close>

definition estimar_ubicacion_2_celdas ::
  "radicando_calculado \<Rightarrow> TrianguladorGSM \<Rightarrow> datetime \<Rightarrow> CeldaGSM list
     \<Rightarrow> fault + UbicacionEstimada option" where
  "estimar_ubicacion_2_celdas rad tri t celdas =
     (if length celdas < 2 then Inr None
      else let con_ubicacion = celdas_con_ubicacion tri celdas
      in if length con_ubicacion < 2 then Inr None
      else let (celda1, ubic1) = con_ubicacion ! 0;
               (celda2, ubic2) = con_ubicacion ! 1;
               rssi_total = signal_strength celda1 + signal_strength celda2;
               (peso1, peso2) =
                 (if rssi_total > 0
                  then (real_of_int (signal_strength celda1) / real_of_int rssi_total,
                        real_of_int (signal_strength celda2) / real_of_int rssi_total)
                  else (1 / 2, 1 / 2));
               lat_estimada = lat ubic1 * peso1 + lat ubic2 * peso2;
               lon_estimada = lon ubic1 * peso1 + lon ubic2 * peso2
           in bindE (calcular_distancia rad (lat ubic1) (lon ubic1) (lat ubic2) (lon ubic2))
                (\<lambda>distancia_celdas.
                   let precision_est = distancia_celdas * (1 / 2)
                   in Inr (Some \<lparr>latitude = Fin lat_estimada, longitude = Fin lon_estimada,
                                  precision = Fin precision_est, metodo = ''2_CELDAS'',
                                  celdas_utilizadas = celdas, ubic_timestamp = t\<rparr>)))"

section \<open>Combiner\<close>

text \<open>
  The weights of \<open>_combinar_resultados\<close>: \<open>1/(p + 0.001)\<close> for each precision, divided by
  their sum.
\<close>

definition pesos_combinacion :: "pyfloat list \<Rightarrow> pyfloat list" where
  "pesos_combinacion precisiones =
     (let pesos = map (\<lambda>p. fdiv (Fin 1) (fadd p (Fin (1 / 1000)))) precisiones
      in map (\<lambda>w. fdiv w (fsum pesos)) pesos)"

text \<open>
  \<open>1/(p + 0.001)\<close> with a zero divisor raises \<open>ZeroDivisionError\<close> when \<open>p\<close> is a Python
  float, and gives an infinity (all outputs nan in the end) when \<open>p\<close> is a
  \<open>numpy.float64\<close>. The dataclass does not say which of the two a precision is, so the
  model takes it from the parameter \<open>es_float_python\<close>.
\<close>

definition combinar_resultados ::
  "(UbicacionEstimada \<Rightarrow> bool) \<Rightarrow> datetime \<Rightarrow> UbicacionEstimada list \<Rightarrow> fault + UbicacionEstimada" where
  "combinar_resultados es_float_python t resultados =
     (let lats = map latitude resultados;
          lons = map longitude resultados;
          precisiones = map precision resultados
      in if list_ex (\<lambda>r. es_float_python r \<and> fadd (precision r) (Fin (1 / 1000)) = Fin 0) resultados
         then Inl ZeroDivisionError
         else let pesos = pesos_combinacion precisiones
         in bindE (np_average_f lats pesos) (\<lambda>lat_combinada.
            bindE (np_average_f lons pesos) (\<lambda>lon_combinada.
            bindE (np_average_f precisiones pesos) (\<lambda>precision_combinada.
              Inr \<lparr>latitude = lat_combinada, longitude = lon_combinada,
                   precision = precision_combinada, metodo = ''COMBINADO'',
                   celdas_utilizadas = concat (map celdas_utilizadas resultados),
                   ubic_timestamp = t\<rparr>))))"

section \<open>Orchestration\<close>

definition triangular_ubicacion ::
  "radicando_calculado \<Rightarrow> (UbicacionEstimada \<Rightarrow> bool) \<Rightarrow> optimizador \<Rightarrow> datetime
     \<Rightarrow> TrianguladorGSM \<Rightarrow> CeldaGSM list \<Rightarrow> fault + UbicacionEstimada option" where
  "triangular_ubicacion rad es_float_python minimize t tri mediciones =
     (if length mediciones < 3 then estimar_ubicacion_2_celdas rad tri t mediciones
      else let con_ubicacion = celdas_con_ubicacion tri mediciones
      in if length con_ubicacion < 2 then Inr None
      else let resultado_rssi = triangulacion_rssi rad minimize t con_ubicacion;
               resultado_toa = triangulacion_toa rad minimize t con_ubicacion
           in bindE (metodo_centroide t con_ubicacion) (\<lambda>resultado_centroide.
                let resultados = (case resultado_rssi of None \<Rightarrow> [] | Some r \<Rightarrow> [r])
                               @ (case resultado_toa of None \<Rightarrow> [] | Some r \<Rightarrow> [r])
                               @ [resultado_centroide]
                in if resultados = [] then Inr None
                   else bindE (combinar_resultados es_float_python t resultados)
                          (\<lambda>r. Inr (Some r))))"

record MapeadorGSM =
  trayectorias :: "string \<rightharpoonup> UbicacionEstimada list"

definition actualizar_trayectoria :: "MapeadorGSM \<Rightarrow> string \<Rightarrow> UbicacionEstimada \<Rightarrow> MapeadorGSM" where
  "actualizar_trayectoria mp imsi ubicacion =
     (let t1 = (trayectorias mp)(imsi \<mapsto> dd_get (trayectorias mp) imsi @ [ubicacion]);
          t2 = (if length (dd_get t1 imsi) > 100 then t1(imsi \<mapsto> tl (dd_get t1 imsi)) else t1)
      in mp\<lparr>trayectorias := t2\<rparr>)"

record AnalizadorGSMAvanzado =
  triangulador :: TrianguladorGSM
  mapeador :: MapeadorGSM
  mediciones_actuales :: "string \<rightharpoonup> CeldaGSM list"
  ubicaciones_estimadas :: "UbicacionEstimada list"

definition AnalizadorGSMAvanzado_init :: "(string \<rightharpoonup> ubicacion_bd) \<Rightarrow> AnalizadorGSMAvanzado" where
  "AnalizadorGSMAvanzado_init bd =
     \<lparr>triangulador = TrianguladorGSM_init bd, mapeador = \<lparr>trayectorias = Map.empty\<rparr>,
      mediciones_actuales = Map.empty, ubicaciones_estimadas = []\<rparr>"

text \<open>
  \<open>_limpiar_mediciones_antiguas\<close>: \<open>ahora\<close> is the clock reading \<open>datetime.now()\<close> taken
  there. Every key of \<open>mediciones_actuales\<close> keeps the measurements with
  \<open>ahora - timestamp < timedelta(minutes=5)\<close>.
\<close>

definition limpiar_mediciones_antiguas :: "datetime \<Rightarrow> AnalizadorGSMAvanzado \<Rightarrow> AnalizadorGSMAvanzado" where
  "limpiar_mediciones_antiguas ahora an =
     an\<lparr>mediciones_actuales :=
          (\<lambda>imsi. map_option (filter (\<lambda>celda. ahora - timestamp celda < timedelta_minutes 5))
                     (mediciones_actuales an imsi))\<rparr>"

text \<open>
  \<open>procesar_medicion_celda\<close>: record in the history, append to the subject's list, estimate
  when the list holds at least two measurements, and purge last. An exception raised by the
  estimation leaves the method before the purge, with the object as the first two
  statements left it: the result is \<open>Inl\<close> of the exception and that state. A call that
  returns gives \<open>Inr\<close> of the new state.
\<close>

definition procesar_medicion_celda ::
  "radicando_calculado \<Rightarrow> (UbicacionEstimada \<Rightarrow> bool) \<Rightarrow> optimizador \<Rightarrow> datetime \<Rightarrow> datetime
     \<Rightarrow> AnalizadorGSMAvanzado \<Rightarrow> string \<Rightarrow> CeldaGSM
     \<Rightarrow> (fault \<times> AnalizadorGSMAvanzado) + AnalizadorGSMAvanzado" where
  "procesar_medicion_celda rad es_float_python minimize t ahora an imsi celda =
     (let an1 = an\<lparr>triangulador := agregar_medicion_celda (triangulador an) celda\<rparr>;
          an2 = an1\<lparr>mediciones_actuales :=
                      (mediciones_actuales an1)(imsi \<mapsto> dd_get (mediciones_actuales an1) imsi @ [celda])\<rparr>
      in bindE
           (if length (dd_get (mediciones_actuales an2) imsi) \<ge> 2
            then (case triangular_ubicacion rad es_float_python minimize t (triangulador an2)
                          (dd_get (mediciones_actuales an2) imsi) of
                    Inl e \<Rightarrow> Inl (e, an2)
                  | Inr None \<Rightarrow> Inr an2
                  | Inr (Some u) \<Rightarrow>
                      Inr (an2\<lparr>ubicaciones_estimadas := ubicaciones_estimadas an2 @ [u],
                                mapeador := actualizar_trayectoria (mapeador an2) imsi u\<rparr>))
            else Inr an2)
           (\<lambda>an3. Inr (limpiar_mediciones_antiguas ahora an3)))"

text \<open>
  What the estimators of this file give as precision: a non-negative real or nan.
\<close>

definition precision_valida :: "pyfloat \<Rightarrow> bool" where
  "precision_valida p = (case p of NaN \<Rightarrow> True | Fin r \<Rightarrow> 0 \<le> r)"

section \<open>Example inputs\<close>

definition celda_ejemplo :: "int \<Rightarrow> CeldaGSM" where
  "celda_ejemplo i =
     \<lparr>mcc = ''214'', mnc = ''07'', lac = ''1234'', cell_id = ''5678'', arfcn = i, bsic = 0,
      signal_strength = - 70, celda_latitude = 0, celda_longitude = 0, timestamp = i,
      tipo_celda = ''BCCH''\<rparr>"

definition celda_de :: "string \<Rightarrow> int \<Rightarrow> datetime \<Rightarrow> CeldaGSM" where
  "celda_de cid ss ts =
     \<lparr>mcc = ''214'', mnc = ''07'', lac = ''1234'', cell_id = cid, arfcn = 0, bsic = 0,
      signal_strength = ss, celda_latitude = 0, celda_longitude = 0, timestamp = ts,
      tipo_celda = ''BCCH''\<rparr>"

definition bd_ejemplo :: "string \<rightharpoonup> ubicacion_bd" where
  "bd_ejemplo = [''214-07-1234-A'' \<mapsto> \<lparr>lat = 0, lon = 0\<rparr>,
                 ''214-07-1234-B'' \<mapsto> \<lparr>lat = 0, lon = 1800 / (6371 * pi)\<rparr>]"

definition minimize_sin_exito :: optimizador where
  "minimize_sin_exito f x0 bounds = None"

definition todos_numpy :: "UbicacionEstimada \<Rightarrow> bool" where
  "todos_numpy r = False"

definition celda_malformada :: CeldaGSM where
  "celda_malformada =
     \<lparr>mcc = ''abc'', mnc = ''x y'', lac = ''#'', cell_id = ''??'', arfcn = 0, bsic = 0,
      signal_strength = - 70, celda_latitude = 0, celda_longitude = 0, timestamp = 0,
      tipo_celda = ''BCCH''\<rparr>"

definition par_ejemplo :: "string \<Rightarrow> int \<Rightarrow> real \<Rightarrow> real \<Rightarrow> CeldaGSM \<times> ubicacion_bd" where
  "par_ejemplo cid ss la lo = (celda_de cid ss 0, \<lparr>lat = la, lon = lo\<rparr>)"

definition estimacion_ejemplo :: "real \<Rightarrow> real \<Rightarrow> real \<Rightarrow> string \<Rightarrow> UbicacionEstimada" where
  "estimacion_ejemplo la lo p m =
     \<lparr>latitude = Fin la, longitude = Fin lo, precision = Fin p, metodo = m,
      celdas_utilizadas = [celda_de ''A'' (- 60) 0, celda_de ''B'' (- 90) 0], ubic_timestamp = 0\<rparr>"

text \<open>
  A computed radicand that agrees with exact arithmetic everywhere but at the towers
  (8, 0) and (-8, 180), where it has the value \<open>1.0000000000000002 = 1 + 2^-52\<close> that lines
  279 to 284 give in IEEE double arithmetic.
\<close>

definition radicando_doble :: radicando_calculado where
  "radicando_doble lat1 lon1 lat2 lon2 =
     (if lat1 = 8 \<and> lon1 = 0 \<and> lat2 = - 8 \<and> lon2 = 180 then 1 + 1 / 2 ^ 52
      else radicando lat1 lon1 lat2 lon2)"

text \<open>
  A database with these two towers.
\<close>

definition bd_antipodas :: "string \<rightharpoonup> ubicacion_bd" where
  "bd_antipodas = [''214-07-1234-A'' \<mapsto> \<lparr>lat = 8, lon = 0\<rparr>,
                   ''214-07-1234-B'' \<mapsto> \<lparr>lat = - 8, lon = 180\<rparr>]"

section \<open>The history is a FIFO buffer of capacity 50\<close>

lemma dd_get_upd: "dd_get (d(k \<mapsto> xs)) k' = (if k' = k then xs else dd_get d k')"
  by (simp add: dd_get_def)

lemma agregar_historial:
  "dd_get (historial_mediciones (agregar_medicion_celda tri celda)) k =
     (if clave_celda celda = k
      then (let xs = dd_get (historial_mediciones tri) k @ [celda]
            in if length xs > 50 then tl xs else xs)
      else dd_get (historial_mediciones tri) k)"
  by (auto simp: agregar_medicion_celda_def Let_def dd_get_upd)

lemma agregar_estaciones_base:
  "estaciones_base (agregar_medicion_celda tri celda) = estaciones_base tri"
  by (simp add: agregar_medicion_celda_def Let_def)

lemma ultimas_snoc:
  assumes "length (drop (length xs - 50) xs) \<le> 50"
  shows "(let ys = drop (length xs - 50) xs @ [c] in if length ys > 50 then tl ys else ys)
           = drop (length (xs @ [c]) - 50) (xs @ [c])"
proof (cases "length xs < 50")
  case True
  then show ?thesis by (simp add: Let_def)
next
  case False
  then have ge: "50 \<le> length xs" by simp
  then have len: "length (drop (length xs - 50) xs) = 50" by simp
  have "tl (drop (length xs - 50) xs @ [c]) = tl (drop (length xs - 50) xs) @ [c]"
    using len by (cases "drop (length xs - 50) xs") auto
  also have "tl (drop (length xs - 50) xs) = drop (Suc (length xs - 50)) xs"
    by (simp add: drop_Suc tl_drop)
  also have "Suc (length xs - 50) = length (xs @ [c]) - 50"
    using ge by simp
  finally have "tl (drop (length xs - 50) xs @ [c]) = drop (length (xs @ [c]) - 50) xs @ [c]" .
  moreover have "drop (length (xs @ [c]) - 50) (xs @ [c]) = drop (length (xs @ [c]) - 50) xs @ [c]"
    using ge by simp
  ultimately show ?thesis using len by (simp add: Let_def)
qed

lemma historial_foldl:
  "dd_get (historial_mediciones (foldl agregar_medicion_celda (TrianguladorGSM_init bd) cs)) k
     = (let ins = filter (\<lambda>c. clave_celda c = k) cs in drop (length ins - 50) ins)"
proof (induction cs rule: rev_induct)
  case Nil
  then show ?case by (simp add: TrianguladorGSM_init_def dd_get_def)
next
  case (snoc c cs)
  let ?ins = "filter (\<lambda>c. clave_celda c = k) cs"
  show ?case
  proof (cases "clave_celda c = k")
    case True
    have "length (drop (length ?ins - 50) ?ins) \<le> 50" by simp
    from ultimas_snoc [OF this, of c] show ?thesis
      using snoc True by (simp add: agregar_historial Let_def)
  next
    case False
    then show ?thesis using snoc by (simp add: agregar_historial Let_def)
  qed
qed


text \<open>
  C2. Starting from a fresh \<open>TrianguladorGSM\<close> and recording the measurements \<open>cs\<close> in
  order, the history of every cell key \<open>k\<close> holds the measurements recorded under \<open>k\<close>, in
  insertion order, cut down to the 50 most recent ones. In particular, once 51 measurements
  have been recorded under \<open>k\<close>, the history of \<open>k\<close> has exactly 50 entries: all but the
  oldest one.
\<close>

theorem historial_capacidad_50:
  "(let ins = filter (\<lambda>c. clave_celda c = k) cs;
        h = dd_get (historial_mediciones
              (foldl agregar_medicion_celda (TrianguladorGSM_init bd) cs)) k
    in h = drop (length ins - 50) ins \<and> length h \<le> 50 \<and>
       (length ins = 51 \<longrightarrow> length h = 50 \<and> h = tl ins))"
proof -
  let ?ins = "filter (\<lambda>c. clave_celda c = k) cs"
  have "length ?ins = 51 \<Longrightarrow> drop (length ?ins - 50) ?ins = tl ?ins"
    by (simp add: drop_Suc)
  then show ?thesis
    by (auto simp: historial_foldl Let_def)
qed

theorem historial_capacidad_50_witness:
  "(let cs = map (\<lambda>i. celda_ejemplo (int i)) [0..<51];
        h = dd_get (historial_mediciones
              (foldl agregar_medicion_celda (TrianguladorGSM_init Map.empty) cs))
              ''214-07-1234-5678''
    in length cs = 51 \<and> length h = 50 \<and> h = tl cs)"
proof -
  let ?cs = "map (\<lambda>i. celda_ejemplo (int i)) [0..<51]"
  have k: "\<And>i. clave_celda (celda_ejemplo i) = ''214-07-1234-5678''"
    by (simp add: clave_celda_def celda_ejemplo_def)
  have f: "filter (\<lambda>c. clave_celda c = ''214-07-1234-5678'') ?cs = ?cs"
    by (simp add: filter_map o_def k)
  show ?thesis
    using historial_capacidad_50 [of "''214-07-1234-5678''" ?cs Map.empty]
    unfolding Let_def f by (simp add: drop_Suc)
qed

section \<open>Weights, sums and what the estimators can raise\<close>

lemma sum_list_map_divide: "sum_list (map (\<lambda>x. f x / (c::real)) xs) = sum_list (map f xs) / c"
  by (induction xs) (simp_all add: add_divide_distrib)

lemma int64_cero: "int64 x > 0 \<Longrightarrow> x \<noteq> 0"
  by (auto simp: int64_def)

lemma int64_id: "- (2 ^ 63) \<le> x \<Longrightarrow> x < 2 ^ 63 \<Longrightarrow> int64 x = x"
  by (simp add: int64_def)

lemma suma_real_of_int: "sum_list (map real_of_int ss) = real_of_int (sum_list ss)"
  by (induction ss) simp_all

lemma pesos_centroide_suma:
  "sum_list (pesos_centroide ss) =
     (if np_sum_int64 ss > 0 then real_of_int (sum_list ss) / real_of_int (np_sum_int64 ss)
      else if ss = [] then 0 else 1)"
  by (simp add: pesos_centroide_def sum_list_map_divide suma_real_of_int sum_list_triv)

lemma pesos_centroide_suma_no_cero:
  assumes "ss \<noteq> []"
  shows "sum_list (pesos_centroide ss) \<noteq> 0"
proof (cases "np_sum_int64 ss > 0")
  case True
  then have "sum_list ss \<noteq> 0" unfolding np_sum_int64_def by (rule int64_cero)
  with True show ?thesis by (simp add: pesos_centroide_suma)
next
  case False
  with assms show ?thesis by (simp add: pesos_centroide_suma)
qed

lemma fsum_Fin: "fsum (map Fin rs) = Fin (sum_list rs)"
  by (induction rs) (simp_all add: fsum_def)

lemma fsum_NaN: "NaN \<in> set xs \<Longrightarrow> fsum xs = NaN"
proof (induction xs)
  case Nil then show ?case by simp
next
  case (Cons x xs)
  show ?case
  proof (cases x)
    case (Fin r)
    with Cons show ?thesis by (simp add: fsum_def)
  next
    case NaN
    then show ?thesis by (simp add: fsum_def)
  qed
qed

lemma sin_Fin: "NaN \<notin> set xs \<Longrightarrow> \<exists>rs. xs = map Fin rs"
proof (induction xs)
  case Nil then show ?case by simp
next
  case (Cons x xs)
  then obtain rs where "xs = map Fin rs" by auto
  moreover from Cons.prems obtain r where "x = Fin r" by (cases x) auto
  ultimately have "x # xs = map Fin (r # rs)" by simp
  then show ?case by (rule exI)
qed

lemma length_pesos_centroide: "length (pesos_centroide ss) = length ss"
  by (simp add: pesos_centroide_def)

lemma metodo_centroide_eq:
  assumes "celdas \<noteq> []"
  shows "metodo_centroide t celdas =
     (let lats = map (\<lambda>(_, u). lat u) celdas;
          lons = map (\<lambda>(_, u). lon u) celdas;
          pesos = pesos_centroide (map (\<lambda>(c, _). signal_strength c) celdas);
          lat_c = sum_list (map2 (*) lats pesos) / sum_list pesos;
          lon_c = sum_list (map2 (*) lons pesos) / sum_list pesos
      in Inr \<lparr>latitude = Fin lat_c, longitude = Fin lon_c,
              precision = np_sqrt
                (sum_list (map2 (*) (map (\<lambda>x. (x - lat_c)\<^sup>2) lats) pesos) / sum_list pesos
                 + sum_list (map2 (*) (map (\<lambda>x. (x - lon_c)\<^sup>2) lons) pesos) / sum_list pesos),
              metodo = ''CENTROIDE'', celdas_utilizadas = map fst celdas, ubic_timestamp = t\<rparr>)"
proof -
  have "map (\<lambda>(c, _). signal_strength c) celdas \<noteq> []" using assms by simp
  from pesos_centroide_suma_no_cero [OF this]
  show ?thesis
    by (simp add: metodo_centroide_def Let_def np_average_def bindE_def)
qed

lemma suma_ponderada_cota_inf:
  "length xs = length ws \<Longrightarrow> \<forall>w \<in> set ws. (0::real) \<le> w \<Longrightarrow> \<forall>x \<in> set xs. lo \<le> x
     \<Longrightarrow> lo * sum_list ws \<le> sum_list (map2 (*) xs ws)"
proof (induction xs ws rule: list_induct2)
  case Nil
  then show ?case by simp
next
  case (Cons x xs w ws)
  then have "lo * sum_list ws \<le> sum_list (map2 (*) xs ws)" by simp
  moreover have "lo * w \<le> x * w" using Cons.prems by (simp add: mult_right_mono)
  ultimately show ?case by (simp add: distrib_left)
qed

lemma suma_ponderada_cota_sup:
  "length xs = length ws \<Longrightarrow> \<forall>w \<in> set ws. (0::real) \<le> w \<Longrightarrow> \<forall>x \<in> set xs. x \<le> hi
     \<Longrightarrow> sum_list (map2 (*) xs ws) \<le> hi * sum_list ws"
proof (induction xs ws rule: list_induct2)
  case Nil
  then show ?case by simp
next
  case (Cons x xs w ws)
  then have "sum_list (map2 (*) xs ws) \<le> hi * sum_list ws" by simp
  moreover have "x * w \<le> hi * w" using Cons.prems by (simp add: mult_right_mono)
  ultimately show ?case by (simp add: distrib_left)
qed

lemma pesos_centroide_pos:
  assumes "\<forall>s \<in> set ss. 0 < s" and "w \<in> set (pesos_centroide ss)"
  shows "0 < w"
proof -
  from assms(2) have "pesos_centroide ss \<noteq> []" by auto
  then have ne: "ss \<noteq> []" using length_pesos_centroide [of ss] by auto
  then have "0 < length ss" by simp
  with assms show ?thesis
    by (auto simp: pesos_centroide_def split: if_splits)
qed

lemma suma_lista_pos: "xs \<noteq> [] \<Longrightarrow> \<forall>x \<in> set xs. (0::real) < x \<Longrightarrow> 0 < sum_list xs"
proof (induction xs)
  case Nil
  then show ?case by simp
next
  case (Cons x xs)
  then show ?case by (cases xs) (auto intro: add_pos_pos)
qed


lemma map2_fmul_Fin: "map2 fmul (map Fin xs) (map Fin ws) = map Fin (map2 (*) xs ws)"
  by (simp add: zip_map_map split_def)

lemma np_average_f_Fin:
  "sum_list ws \<noteq> 0 \<Longrightarrow>
   np_average_f (map Fin xs) (map Fin ws) = Inr (Fin (sum_list (map2 (*) xs ws) / sum_list ws))"
  unfolding np_average_f_def map2_fmul_Fin fsum_Fin by simp

lemma suma_inversos_pos:
  assumes "ps \<noteq> []" and "\<forall>p \<in> set ps. (0::real) \<le> p"
  shows "0 < sum_list (map (\<lambda>p. 1 / (p + 1 / 1000)) ps)"
proof -
  have "\<forall>x \<in> set (map (\<lambda>p. 1 / (p + 1 / 1000)) ps). 0 < x"
    using assms(2) by (auto intro!: divide_pos_pos add_nonneg_pos)
  moreover have "map (\<lambda>p. 1 / (p + 1 / 1000)) ps \<noteq> []" using assms(1) by simp
  ultimately show ?thesis
    using suma_lista_pos by blast
qed

lemma pesos_combinacion_Fin:
  assumes "ps \<noteq> []" and "\<forall>p \<in> set ps. (0::real) \<le> p"
  shows "pesos_combinacion (map Fin ps) =
           map Fin (map (\<lambda>p. (1 / (p + 1 / 1000)) / sum_list (map (\<lambda>q. 1 / (q + 1 / 1000)) ps)) ps)"
proof -
  have inner: "map (\<lambda>p. fdiv (Fin 1) (fadd p (Fin (1 / 1000)))) (map Fin ps)
                 = map Fin (map (\<lambda>p. 1 / (p + 1 / 1000)) ps)"
    using assms(2) by (auto simp: add_nonneg_eq_0_iff)
  have "sum_list (map (\<lambda>q. 1 / (q + 1 / 1000)) ps) \<noteq> 0"
    using suma_inversos_pos [OF assms] by simp
  then show ?thesis
    unfolding pesos_combinacion_def Let_def inner fsum_Fin
    by simp
qed

lemma sin_division_por_cero:
  assumes "\<forall>r \<in> set resultados. precision_valida (precision r)"
  shows "\<not> list_ex (\<lambda>r. es_float_python r \<and> fadd (precision r) (Fin (1 / 1000)) = Fin 0) resultados"
proof -
  have "fadd p (Fin (1 / 1000)) \<noteq> Fin 0" if "precision_valida p" for p
    using that by (cases p) (auto simp: precision_valida_def)
  with assms show ?thesis by (auto simp: list_ex_iff)
qed

lemma suma_pesos_normalizados:
  assumes "ps \<noteq> []" and "\<forall>p \<in> set ps. (0::real) \<le> p"
  shows "sum_list (map (\<lambda>p. (1 / (p + 1 / 1000)) / sum_list (map (\<lambda>q. 1 / (q + 1 / 1000)) ps)) ps) = 1"
proof -
  have "sum_list (map (\<lambda>q. 1 / (q + 1 / 1000)) ps) \<noteq> 0"
    using suma_inversos_pos [OF assms] by simp
  then show ?thesis
    by (subst sum_list_map_divide) simp
qed

lemma fsum_pesos_combinacion:
  assumes "ps \<noteq> []" and "\<forall>p \<in> set ps. precision_valida p"
  shows "fsum (pesos_combinacion ps) \<noteq> Fin 0"
proof (cases "NaN \<in> set ps")
  case True
  let ?inner = "map (\<lambda>p. fdiv (Fin 1) (fadd p (Fin (1 / 1000)))) ps"
  have "NaN \<in> set ?inner"
  proof -
    have "fdiv (Fin 1) (fadd NaN (Fin (1 / 1000))) = NaN" by simp
    with True show ?thesis by (metis (mono_tags, lifting) image_eqI list.set_map)
  qed
  then have "fsum ?inner = NaN" by (rule fsum_NaN)
  then have "pesos_combinacion ps = map (\<lambda>w. NaN) ?inner"
    by (simp add: pesos_combinacion_def Let_def)
  then have "NaN \<in> set (pesos_combinacion ps)" using assms(1) by (cases ps) auto
  then have "fsum (pesos_combinacion ps) = NaN" by (rule fsum_NaN)
  then show ?thesis by simp
next
  case False
  then obtain rs where rs: "ps = map Fin rs" using sin_Fin by blast
  have ne: "rs \<noteq> []" using assms(1) rs by simp
  have pos: "\<forall>p \<in> set rs. 0 \<le> p"
    using assms(2) rs by (auto simp: precision_valida_def)
  show ?thesis
    unfolding rs pesos_combinacion_Fin [OF ne pos] fsum_Fin suma_pesos_normalizados [OF ne pos]
    by simp
qed

lemma combinar_resultados_Inr:
  assumes "resultados \<noteq> []" and "\<forall>r \<in> set resultados. precision_valida (precision r)"
  shows "\<exists>e. combinar_resultados es_float_python t resultados = Inr e"
proof -
  let ?ps = "map precision resultados"
  have ne: "?ps \<noteq> []" using assms(1) by simp
  have ok: "\<forall>p \<in> set ?ps. precision_valida p" using assms(2) by simp
  have z: "fsum (pesos_combinacion ?ps) \<noteq> Fin 0" by (rule fsum_pesos_combinacion [OF ne ok])
  show ?thesis
    using sin_division_por_cero [OF assms(2), of es_float_python] z
    by (simp add: combinar_resultados_def Let_def bindE_def np_average_f_def)
qed

lemma combinar_resultados_Fin:
  assumes "resultados \<noteq> []"
    and "map latitude resultados = map Fin las"
    and "map longitude resultados = map Fin los"
    and "map precision resultados = map Fin ps"
    and "\<forall>p \<in> set ps. 0 \<le> p"
  shows "combinar_resultados es_float_python t resultados =
     (let w = map (\<lambda>p. (1 / (p + 1 / 1000)) / sum_list (map (\<lambda>q. 1 / (q + 1 / 1000)) ps)) ps
      in Inr \<lparr>latitude = Fin (sum_list (map2 (*) las w)),
              longitude = Fin (sum_list (map2 (*) los w)),
              precision = Fin (sum_list (map2 (*) ps w)),
              metodo = ''COMBINADO'',
              celdas_utilizadas = concat (map celdas_utilizadas resultados),
              ubic_timestamp = t\<rparr>)"
proof -
  have ne: "ps \<noteq> []" using assms(1,4) by (metis map_is_Nil_conv)
  have ok: "\<forall>r \<in> set resultados. precision_valida (precision r)"
  proof
    fix r assume "r \<in> set resultados"
    then have "precision r \<in> set (map precision resultados)" by simp
    then have "precision r \<in> set (map Fin ps)" by (simp only: assms(4))
    then obtain p where "precision r = Fin p" "p \<in> set ps" by auto
    then show "precision_valida (precision r)"
      using assms(5) by (simp add: precision_valida_def)
  qed
  let ?w = "map (\<lambda>p. (1 / (p + 1 / 1000)) / sum_list (map (\<lambda>q. 1 / (q + 1 / 1000)) ps)) ps"
  have s1: "sum_list ?w = 1" by (rule suma_pesos_normalizados [OF ne assms(5)])
  then have s0: "sum_list ?w \<noteq> 0" by simp
  show ?thesis
    unfolding combinar_resultados_def Let_def assms(2,3,4) pesos_combinacion_Fin [OF ne assms(5)]
      np_average_f_Fin [OF s0] s1
    using sin_division_por_cero [OF ok, of es_float_python]
    by (simp add: bindE_def)
qed

lemma acumular_errores_no_negativo:
  assumes "\<And>c e. f c = Inr e \<Longrightarrow> 0 \<le> e" and "0 \<le> acc"
    and "acumular_errores f acc cs = Inr v"
  shows "0 \<le> v"
  using assms(2,3)
proof (induction cs arbitrary: acc)
  case Nil
  then show ?case by simp
next
  case (Cons c cs)
  from Cons.prems(2) obtain e where e: "f c = Inr e"
    and r: "acumular_errores f (acc + e) cs = Inr v"
    by (auto simp: bindE_def split: sum.splits)
  from assms(1) [OF e] Cons.prems(1) have "0 \<le> acc + e" by simp
  from Cons.IH [OF this r] show ?case .
qed

lemma funcion_error_rssi_nonneg: "funcion_error_rssi rad celdas x = Inr v \<Longrightarrow> 0 \<le> v"
  unfolding funcion_error_rssi_def
  by (erule acumular_errores_no_negativo [rotated 2])
     (auto simp: bindE_def split: sum.splits prod.splits)

lemma funcion_error_toa_nonneg: "funcion_error_toa rad tiempos x = Inr v \<Longrightarrow> 0 \<le> v"
  unfolding funcion_error_toa_def
  by (erule acumular_errores_no_negativo [rotated 2])
     (auto simp: bindE_def split: sum.splits prod.splits)

lemma triangulacion_rssi_precision:
  "triangulacion_rssi rad minimize t celdas = Some r \<Longrightarrow> precision_valida (precision r)"
  by (auto simp: triangulacion_rssi_def Let_def precision_valida_def
           dest: funcion_error_rssi_nonneg split: option.splits sum.splits)

lemma triangulacion_toa_precision:
  "triangulacion_toa rad minimize t celdas = Some r \<Longrightarrow> precision_valida (precision r)"
  by (auto simp: triangulacion_toa_def Let_def precision_valida_def
           dest: funcion_error_toa_nonneg split: option.splits sum.splits)

lemma np_sqrt_valida: "precision_valida (np_sqrt x)"
  by (simp add: np_sqrt_def precision_valida_def)

lemma metodo_centroide_precision:
  assumes "celdas \<noteq> []"
  shows "\<exists>e. metodo_centroide t celdas = Inr e \<and> precision_valida (precision e)"
  unfolding metodo_centroide_eq [OF assms] Let_def by (simp add: np_sqrt_valida)

text \<open>
  With three or more measurements \<open>triangular_ubicacion\<close> returns: the distances are
  computed inside the \<open>try\<close> blocks only, and the weights of the centroid and of the
  combiner do not sum to zero. With fewer, the result is that of the two-cell fallback.
\<close>

lemma triangular_ubicacion_3:
  assumes "3 \<le> length mediciones"
  shows "\<exists>u. triangular_ubicacion rad es_float_python minimize t tri mediciones = Inr u"
proof -
  have False: "\<not> length mediciones < 3" using assms by simp
  let ?cu = "celdas_con_ubicacion tri mediciones"
  show ?thesis
  proof (cases "length ?cu < 2")
    case True
    then show ?thesis using False by (simp add: triangular_ubicacion_def Let_def)
  next
    case pocas: False
    then have ne: "?cu \<noteq> []" by auto
    from metodo_centroide_precision [OF ne] obtain e where
      e: "metodo_centroide t ?cu = Inr e" "precision_valida (precision e)" by blast
    let ?rs = "(case triangulacion_rssi rad minimize t ?cu of None \<Rightarrow> [] | Some r \<Rightarrow> [r])
             @ (case triangulacion_toa rad minimize t ?cu of None \<Rightarrow> [] | Some r \<Rightarrow> [r]) @ [e]"
    have "\<forall>r \<in> set ?rs. precision_valida (precision r)"
      using e(2) by (auto split: option.splits
                          dest: triangulacion_rssi_precision [OF sym] triangulacion_toa_precision [OF sym])
    moreover have "?rs \<noteq> []" by simp
    ultimately obtain r where "combinar_resultados es_float_python t ?rs = Inr r"
      using combinar_resultados_Inr by blast
    then show ?thesis
      using False pocas e(1) by (simp add: triangular_ubicacion_def Let_def bindE_def)
  qed
qed

lemma triangular_ubicacion_2:
  "length mediciones < 3 \<Longrightarrow>
   triangular_ubicacion rad es_float_python minimize t tri mediciones
     = estimar_ubicacion_2_celdas rad tri t mediciones"
  by (simp add: triangular_ubicacion_def)

lemma calcular_distancia_Inr:
  assumes "0 \<le> rad lat1 lon1 lat2 lon2" and "rad lat1 lon1 lat2 lon2 \<le> 1"
  shows "\<exists>d. calcular_distancia rad lat1 lon1 lat2 lon2 = Inr d"
  using assms by (simp add: calcular_distancia_def Let_def)

lemma estimar_2_Inr:
  assumes "\<And>a b c d. 0 \<le> rad a b c d \<and> rad a b c d \<le> 1"
  shows "\<exists>u. estimar_ubicacion_2_celdas rad tri t celdas = Inr u"
proof -
  have "\<exists>dist. calcular_distancia rad a b c d = Inr dist" for a b c d
    using assms [of a b c d] by (simp add: calcular_distancia_Inr)
  then show ?thesis
    unfolding estimar_ubicacion_2_celdas_def Let_def split_def bindE_def
    by (auto split: sum.splits) (metis Inl_Inr_False)+
qed


lemma estimar_2_Inl:
  "estimar_ubicacion_2_celdas rad tri t celdas = Inl e \<Longrightarrow> e = ValueError"
  unfolding estimar_ubicacion_2_celdas_def Let_def split_def bindE_def calcular_distancia_def
  by (auto split: if_splits sum.splits)

lemma triangular_ubicacion_Inl:
  assumes "triangular_ubicacion rad es_float_python minimize t tri mediciones = Inl e"
  shows "e = ValueError \<and> length mediciones < 3"
proof (cases "length mediciones < 3")
  case True
  with assms show ?thesis by (auto simp: triangular_ubicacion_2 dest: estimar_2_Inl)
next
  case False
  then have "3 \<le> length mediciones" by simp
  from triangular_ubicacion_3 [OF this, of rad es_float_python minimize t tri] assms
  show ?thesis by auto
qed

section \<open>The ingest call\<close>

lemma procesar_forma:
  "procesar_medicion_celda rad es_float_python minimize t ahora an imsi celda =
     (let v = dd_get (mediciones_actuales an) imsi @ [celda];
          tri = agregar_medicion_celda (triangulador an) celda;
          an2 = an\<lparr>triangulador := tri,
                    mediciones_actuales := (mediciones_actuales an)(imsi \<mapsto> v)\<rparr>
      in if 2 \<le> length v
         then (case triangular_ubicacion rad es_float_python minimize t tri v of
                 Inl e \<Rightarrow> Inl (e, an2)
               | Inr None \<Rightarrow> Inr (limpiar_mediciones_antiguas ahora an2)
               | Inr (Some u) \<Rightarrow>
                   Inr (limpiar_mediciones_antiguas ahora
                     (an2\<lparr>ubicaciones_estimadas := ubicaciones_estimadas an @ [u],
                          mapeador := actualizar_trayectoria (mapeador an) imsi u\<rparr>)))
         else Inr (limpiar_mediciones_antiguas ahora an2))"
  by (simp add: procesar_medicion_celda_def Let_def bindE_def dd_get_upd
           split: sum.splits option.splits)

lemma procesar_mediciones_actuales:
  assumes "procesar_medicion_celda rad es_float_python minimize t ahora an imsi celda = Inr an'"
  shows "mediciones_actuales an' k =
           map_option (filter (\<lambda>c. ahora - timestamp c < timedelta_minutes 5))
             (((mediciones_actuales an)(imsi \<mapsto> dd_get (mediciones_actuales an) imsi @ [celda])) k)"
  using assms unfolding procesar_forma
  by (auto simp: Let_def limpiar_mediciones_antiguas_def split: if_splits sum.splits option.splits)

lemma procesar_triangulador:
  assumes "procesar_medicion_celda rad es_float_python minimize t ahora an imsi celda = Inr an'"
  shows "triangulador an' = agregar_medicion_celda (triangulador an) celda"
  using assms unfolding procesar_forma
  by (auto simp: Let_def limpiar_mediciones_antiguas_def split: if_splits sum.splits option.splits)

lemma procesar_ubicaciones:
  assumes "procesar_medicion_celda rad es_float_python minimize t ahora an imsi celda = Inr an'"
  shows "ubicaciones_estimadas an' = ubicaciones_estimadas an @
           (let v = dd_get (mediciones_actuales an) imsi @ [celda]
            in if 2 \<le> length v
               then (case triangular_ubicacion rad es_float_python minimize t
                            (agregar_medicion_celda (triangulador an) celda) v of
                       Inr (Some u) \<Rightarrow> [u] | _ \<Rightarrow> [])
               else [])"
  using assms unfolding procesar_forma
  by (auto simp: Let_def limpiar_mediciones_antiguas_def split: if_splits sum.splits option.splits)

text \<open>
  A call that raises has recorded the measurement and appended it to the subject's list,
  and has purged nothing. In exact arithmetic on the weights, the exception can only be
  the \<open>ValueError\<close> of the two-cell fallback.
\<close>

lemma procesar_lanza:
  assumes "procesar_medicion_celda rad es_float_python minimize t ahora an imsi celda = Inl (e, an')"
  shows "e = ValueError \<and>
         an' = an\<lparr>triangulador := agregar_medicion_celda (triangulador an) celda,
                   mediciones_actuales :=
                     (mediciones_actuales an)(imsi \<mapsto> dd_get (mediciones_actuales an) imsi @ [celda])\<rparr>"
  using assms unfolding procesar_forma
  by (auto simp: Let_def split: if_splits sum.splits option.splits dest: triangular_ubicacion_Inl)

text \<open>When the computed radicand stays between 0 and 1, every call returns.\<close>

lemma procesar_Inr:
  assumes "\<And>a b c d. 0 \<le> rad a b c d \<and> rad a b c d \<le> 1"
  shows "\<exists>an'. procesar_medicion_celda rad es_float_python minimize t ahora an imsi celda = Inr an'"
proof -
  let ?v = "dd_get (mediciones_actuales an) imsi @ [celda]"
  let ?tri = "agregar_medicion_celda (triangulador an) celda"
  have "\<exists>u. triangular_ubicacion rad es_float_python minimize t ?tri ?v = Inr u"
  proof (cases "length ?v < 3")
    case True
    then show ?thesis
      unfolding triangular_ubicacion_2 [OF True] by (intro estimar_2_Inr assms)
  next
    case False
    then show ?thesis by (intro triangular_ubicacion_3) simp
  qed
  then obtain u where u: "triangular_ubicacion rad es_float_python minimize t ?tri ?v = Inr u" ..
  show ?thesis
    unfolding procesar_forma Let_def by (cases u) (simp_all add: u)
qed


section \<open>The radicand in exact arithmetic\<close>

text \<open>
  In exact arithmetic the radicand \<open>a\<close> lies between 0 and 1 for all inputs: there
  neither \<open>math.sqrt(a)\<close> nor \<open>math.sqrt(1 - a)\<close> fails, and every call returns.
\<close>

lemma cos_por_cos: "cos (u - v) * cos (u + v) = (cos u)\<^sup>2 - (sin v)\<^sup>2" for u v :: real
proof -
  have "cos (u - v) * cos (u + v) = (cos u)\<^sup>2 * (cos v)\<^sup>2 - (sin u)\<^sup>2 * (sin v)\<^sup>2"
    by (simp add: cos_add cos_diff power2_eq_square algebra_simps)
  also have "\<dots> = (cos u)\<^sup>2 * (1 - (sin v)\<^sup>2) - (1 - (cos u)\<^sup>2) * (sin v)\<^sup>2"
  proof -
    have "(cos v)\<^sup>2 = 1 - (sin v)\<^sup>2" by (simp add: cos_squared_eq)
    moreover have "(sin u)\<^sup>2 = 1 - (cos u)\<^sup>2" by (simp add: sin_squared_eq)
    ultimately show ?thesis by (simp only:)
  qed
  also have "\<dots> = (cos u)\<^sup>2 - (sin v)\<^sup>2"
    by (simp add: algebra_simps)
  finally show ?thesis .
qed

lemma sin2_le_1: "(sin x)\<^sup>2 \<le> 1" for x :: real
proof -
  have "(sin x)\<^sup>2 + (cos x)\<^sup>2 = 1" by simp
  moreover have "0 \<le> (cos x)\<^sup>2" by simp
  ultimately show ?thesis by linarith
qed

lemma cos2_le_1: "(cos x)\<^sup>2 \<le> 1" for x :: real
proof -
  have "(sin x)\<^sup>2 + (cos x)\<^sup>2 = 1" by simp
  moreover have "0 \<le> (sin x)\<^sup>2" by simp
  ultimately show ?thesis by linarith
qed

lemma combinacion_convexa:
  assumes "0 \<le> s" "s \<le> 1" "0 \<le> x" "x \<le> 1" "0 \<le> y" "y \<le> (1::real)"
  shows "0 \<le> (1 - s) * x + s * y \<and> (1 - s) * x + s * y \<le> 1"
proof -
  have "(1 - s) * x \<le> (1 - s) * 1" using assms by (intro mult_left_mono) auto
  moreover have "s * y \<le> s * 1" using assms by (intro mult_left_mono) auto
  moreover have "0 \<le> (1 - s) * x" "0 \<le> s * y" using assms by auto
  ultimately show ?thesis by simp
qed

lemma radicando_en_0_1:
  "0 \<le> radicando lat1 lon1 lat2 lon2 \<and> radicando lat1 lon1 lat2 lon2 \<le> 1"
proof -
  define u where "u = (radians lat2 + radians lat1) / 2"
  define v where "v = (radians lat2 - radians lat1) / 2"
  define s where "s = (sin (radians (lon2 - lon1) / 2))\<^sup>2"
  have p: "radians lat1 = u - v" and q: "radians lat2 = u + v"
    by (simp_all add: u_def v_def field_simps)
  have d: "radians (lat2 - lat1) / 2 = v"
    by (simp add: v_def radians_def field_simps)
  have "radicando lat1 lon1 lat2 lon2 = (sin v)\<^sup>2 + cos (u - v) * cos (u + v) * s"
    unfolding radicando_def Let_def d p q s_def by (simp add: power2_eq_square)
  also have "\<dots> = (1 - s) * (sin v)\<^sup>2 + s * (cos u)\<^sup>2"
    unfolding cos_por_cos by (simp add: algebra_simps)
  finally have eq: "radicando lat1 lon1 lat2 lon2 = (1 - s) * (sin v)\<^sup>2 + s * (cos u)\<^sup>2" .
  have "0 \<le> s" "s \<le> 1" by (simp_all add: s_def sin2_le_1)
  moreover have "0 \<le> (sin v)\<^sup>2" "(sin v)\<^sup>2 \<le> 1" by (simp_all add: sin2_le_1)
  moreover have "0 \<le> (cos u)\<^sup>2" "(cos u)\<^sup>2 \<le> 1" by (simp_all add: cos2_le_1)
  ultimately show ?thesis unfolding eq by (rule combinacion_convexa)
qed

lemma atan2_no_negativo:
  assumes "0 \<le> y" and "0 \<le> x"
  shows "0 \<le> atan2 y x"
proof (cases "0 < x")
  case True
  then have "0 \<le> y / x" using assms(1) by simp
  then have "0 \<le> arctan (y / x)" by (simp add: arctan_le_zero_iff not_less [symmetric])
  then show ?thesis using True by (simp add: atan2_def)
next
  case False
  then have "x = 0" using assms(2) by simp
  then show ?thesis using assms(1) by (simp add: atan2_def)
qed

text \<open>
  A distance that is returned is never negative, and the two-cell fallback gives a
  non-negative precision and a non-empty list of cells whenever it gives an estimate.
\<close>

lemma calcular_distancia_no_negativa:
  assumes "calcular_distancia rad lat1 lon1 lat2 lon2 = Inr d"
  shows "0 \<le> d"
proof -
  let ?a = "rad lat1 lon1 lat2 lon2"
  from assms have r: "0 \<le> ?a" "?a \<le> 1"
    and d: "d = 6371 * (2 * atan2 (sqrt ?a) (sqrt (1 - ?a)))"
    by (auto simp: calcular_distancia_def Let_def split: if_splits)
  from r have "0 \<le> sqrt ?a" "0 \<le> sqrt (1 - ?a)" by simp_all
  then have "0 \<le> atan2 (sqrt ?a) (sqrt (1 - ?a))" by (rule atan2_no_negativo)
  then show ?thesis unfolding d by simp
qed

lemma estimar_2_celdas_precision:
  assumes "estimar_ubicacion_2_celdas rad tri t celdas = Inr (Some e)"
  shows "precision_valida (precision e) \<and> celdas_utilizadas e \<noteq> []"
  using assms
  by (auto simp: estimar_ubicacion_2_celdas_def Let_def split_def precision_valida_def bindE_def
        split: if_splits sum.splits dest: calcular_distancia_no_negativa)

lemma estimar_2_celdas_utilizadas:
  "estimar_ubicacion_2_celdas rad tri t celdas = Inr (Some e) \<Longrightarrow> celdas_utilizadas e = celdas"
  by (auto simp: estimar_ubicacion_2_celdas_def Let_def split_def bindE_def
        split: if_splits sum.splits)

lemma atan2_sin_cos:
  assumes "0 \<le> x" and "x < pi / 2"
  shows "atan2 (sin x) (cos x) = x"
proof -
  have c: "0 < cos x" using assms by (intro cos_gt_zero_pi) auto
  have "arctan (tan x) = x" using assms by (intro arctan_tan) auto
  then show ?thesis using c by (simp add: atan2_def tan_def)
qed

lemma distancia_sobre_ecuador:
  assumes "0 \<le> d" and "d < 6371 * pi"
  shows "calcular_distancia radicando 0 0 0 (180 * d / (6371 * pi)) = Inr d"
proof -
  let ?x = "d / (2 * 6371)"
  have x0: "0 \<le> ?x" using assms by simp
  have x1: "?x < pi / 2" using assms by simp
  have r: "radians (180 * d / (6371 * pi) - 0) / 2 = ?x"
    by (simp add: radians_def)
  have a: "radicando 0 0 0 (180 * d / (6371 * pi)) = (sin ?x)\<^sup>2"
    unfolding radicando_def Let_def r by (simp add: radians_def power2_eq_square)
  have s: "0 \<le> sin ?x" using x0 x1 by (intro sin_ge_zero) (auto intro: less_imp_le)
  have c: "0 < cos ?x" using x0 x1 by (intro cos_gt_zero_pi) auto
  have sq1: "sqrt ((sin ?x)\<^sup>2) = sin ?x" using s by simp
  have c2: "1 - (sin ?x)\<^sup>2 = (cos ?x)\<^sup>2" by (simp add: cos_squared_eq)
  then have sq2: "sqrt (1 - (sin ?x)\<^sup>2) = cos ?x" using c by simp
  have rango: "\<not> ((sin ?x)\<^sup>2 < 0 \<or> 1 - (sin ?x)\<^sup>2 < 0)"
    unfolding c2 by simp
  show ?thesis
    unfolding calcular_distancia_def Let_def a if_not_P [OF rango] sq1 sq2 atan2_sin_cos [OF x0 x1]
    by simp
qed

lemma distancia_10_km: "calcular_distancia radicando 0 0 0 (1800 / (6371 * pi)) = Inr 10"
proof -
  have "(10::real) < 6371 * pi" using pi_ge_two by simp
  from distancia_sobre_ecuador [of 10, OF _ this] show ?thesis by simp
qed

lemma punto_medio_equidistante:
  "calcular_distancia radicando 0 (m / 2) 0 0 = calcular_distancia radicando 0 (m / 2) 0 m"
proof -
  have "radicando 0 (m / 2) 0 0 = radicando 0 (m / 2) 0 m"
    by (simp add: radicando_def radians_def Let_def)
  then show ?thesis by (simp add: calcular_distancia_def)
qed

text \<open>The two-cell fallback on the two example towers, 10 km apart on the equator.\<close>

lemma celdas_con_ubicacion_ejemplo:
  "estaciones_base tri = bd_ejemplo \<Longrightarrow>
   celdas_con_ubicacion tri [celda_de ''A'' sa ta, celda_de ''B'' sb tb] =
     [(celda_de ''A'' sa ta, \<lparr>lat = 0, lon = 0\<rparr>),
      (celda_de ''B'' sb tb, \<lparr>lat = 0, lon = 1800 / (6371 * pi)\<rparr>)]"
  by (simp add: celdas_con_ubicacion_def obtener_ubicacion_celda_def clave_celda_def
        celda_de_def bd_ejemplo_def)

lemma estimar_2_ejemplo:
  assumes "estaciones_base tri = bd_ejemplo" and "sa + sb \<le> 0"
  shows "estimar_ubicacion_2_celdas radicando tri t [celda_de ''A'' sa ta, celda_de ''B'' sb tb] =
     Inr (Some \<lparr>latitude = Fin 0, longitude = Fin (900 / (6371 * pi)), precision = Fin 5,
                metodo = ''2_CELDAS'',
                celdas_utilizadas = [celda_de ''A'' sa ta, celda_de ''B'' sb tb],
                ubic_timestamp = t\<rparr>)"
proof -
  have ss: "signal_strength (celda_de ''A'' sa ta) = sa" "signal_strength (celda_de ''B'' sb tb) = sb"
    by (simp_all add: celda_de_def)
  show ?thesis
    using assms(2)
    by (simp add: estimar_ubicacion_2_celdas_def celdas_con_ubicacion_ejemplo [OF assms(1)]
          Let_def ss distancia_10_km bindE_def)
qed


section \<open>The purge\<close>

text \<open>
  C10. Every call of \<open>procesar_medicion_celda\<close> that returns has purged the lists of all
  subjects: in the state it returns, every measurement in the list of every subject key
  \<open>k\<close>, not only of the subject of the call, satisfies \<open>ahora - timestamp < 5 minutes\<close>,
  where \<open>ahora\<close> is the clock reading of the call. So no list holds a measurement that is
  5 minutes old or older.
\<close>

theorem purga_todas_las_claves:
  assumes "procesar_medicion_celda rad es_float_python minimize t ahora an imsi celda = Inr an'"
  shows "\<forall>k v. mediciones_actuales an' k = Some v \<longrightarrow>
           (\<forall>c \<in> set v. ahora - timestamp c < timedelta_minutes 5)"
  unfolding procesar_mediciones_actuales [OF assms] by auto

text \<open>
  Two calls from the initial state: the first records a measurement for \<open>imsi-1\<close>, the
  second, 399 seconds later and for \<open>imsi-2\<close>, empties the list of \<open>imsi-1\<close>.
\<close>

theorem purga_todas_las_claves_witness:
  "\<exists>an1 an2.
      procesar_medicion_celda radicando todos_numpy minimize_sin_exito 1000000 1000000
        (AnalizadorGSMAvanzado_init bd_ejemplo) ''imsi-1'' (celda_de ''A'' (- 70) 0) = Inr an1 \<and>
      procesar_medicion_celda radicando todos_numpy minimize_sin_exito 400000000 400000000
        an1 ''imsi-2'' (celda_de ''B'' (- 80) 399000000) = Inr an2 \<and>
      mediciones_actuales an1 ''imsi-1'' = Some [celda_de ''A'' (- 70) 0] \<and>
      mediciones_actuales an2 ''imsi-1'' = Some [] \<and>
      mediciones_actuales an2 ''imsi-2'' = Some [celda_de ''B'' (- 80) 399000000] \<and>
      400000000 - timestamp (celda_de ''B'' (- 80) 399000000) < timedelta_minutes 5"
proof -
  obtain an1 where an1: "procesar_medicion_celda radicando todos_numpy minimize_sin_exito
        1000000 1000000 (AnalizadorGSMAvanzado_init bd_ejemplo) ''imsi-1''
        (celda_de ''A'' (- 70) 0) = Inr an1"
    using procesar_Inr [of radicando, OF radicando_en_0_1] by blast
  have m1: "mediciones_actuales an1 ''imsi-1'' = Some [celda_de ''A'' (- 70) 0]"
    unfolding procesar_mediciones_actuales [OF an1]
    by (simp add: AnalizadorGSMAvanzado_init_def dd_get_def celda_de_def timedelta_minutes_def)
  obtain an2 where an2: "procesar_medicion_celda radicando todos_numpy minimize_sin_exito
        400000000 400000000 an1 ''imsi-2'' (celda_de ''B'' (- 80) 399000000) = Inr an2"
    using procesar_Inr [of radicando, OF radicando_en_0_1] by blast
  have none2: "mediciones_actuales an1 ''imsi-2'' = None"
    unfolding procesar_mediciones_actuales [OF an1]
    by (simp add: AnalizadorGSMAvanzado_init_def)
  have m2: "mediciones_actuales an2 ''imsi-1'' = Some []"
    unfolding procesar_mediciones_actuales [OF an2]
    by (simp add: m1 celda_de_def timedelta_minutes_def)
  have m3: "mediciones_actuales an2 ''imsi-2'' = Some [celda_de ''B'' (- 80) 399000000]"
    unfolding procesar_mediciones_actuales [OF an2]
    by (simp add: none2 dd_get_def celda_de_def timedelta_minutes_def)
  from purga_todas_las_claves [OF an2] m3
  have "400000000 - timestamp (celda_de ''B'' (- 80) 399000000) < timedelta_minutes 5"
    by simp
  with an1 an2 m1 m2 m3 show ?thesis by blast
qed

text \<open>
  C1 (amended). In every call of \<open>procesar_medicion_celda\<close> that returns, the purge is the
  last step, after the estimation attempt: the estimate appended by the call (if any) is
  computed by \<open>triangular_ubicacion\<close> from the subject's whole list as the previous calls
  left it, followed by the new measurement; the measurements that are 5 minutes old or
  older at the time of the call leave the list only afterwards.
\<close>

theorem estimacion_antes_de_purga:
  assumes "procesar_medicion_celda rad es_float_python minimize t ahora an imsi celda = Inr an'"
  shows "(let v = dd_get (mediciones_actuales an) imsi @ [celda];
              tri = agregar_medicion_celda (triangulador an) celda
          in mediciones_actuales an' imsi
               = Some (filter (\<lambda>c. ahora - timestamp c < timedelta_minutes 5) v) \<and>
             ubicaciones_estimadas an' = ubicaciones_estimadas an @
               (if 2 \<le> length v
                then (case triangular_ubicacion rad es_float_python minimize t tri v of
                        Inr (Some u) \<Rightarrow> [u] | _ \<Rightarrow> [])
                else []))"
  using procesar_mediciones_actuales [OF assms, of imsi] procesar_ubicaciones [OF assms]
  by (simp add: Let_def)

text \<open>
  A measurement stamped 0 s is recorded at 1 s; the next call for the same subject comes
  at 601 s with a measurement stamped 600 s. The second call estimates from both
  measurements and only then drops the first one.
\<close>

theorem estimacion_antes_de_purga_witness:
  "\<exists>an1 an2 u.
      procesar_medicion_celda radicando todos_numpy minimize_sin_exito 1000000 1000000
        (AnalizadorGSMAvanzado_init bd_ejemplo) ''imsi-1'' (celda_de ''A'' (- 60) 0) = Inr an1 \<and>
      procesar_medicion_celda radicando todos_numpy minimize_sin_exito 601000000 601000000
        an1 ''imsi-1'' (celda_de ''B'' (- 90) 600000000) = Inr an2 \<and>
      mediciones_actuales an2 ''imsi-1'' = Some [celda_de ''B'' (- 90) 600000000] \<and>
      ubicaciones_estimadas an2 = [u] \<and> precision u = Fin 5"
proof -
  let ?A = "celda_de ''A'' (- 60) 0" and ?B = "celda_de ''B'' (- 90) 600000000"
  obtain an1 where an1: "procesar_medicion_celda radicando todos_numpy minimize_sin_exito
        1000000 1000000 (AnalizadorGSMAvanzado_init bd_ejemplo) ''imsi-1'' ?A = Inr an1"
    using procesar_Inr [of radicando, OF radicando_en_0_1] by blast
  obtain an2 where an2: "procesar_medicion_celda radicando todos_numpy minimize_sin_exito
        601000000 601000000 an1 ''imsi-1'' ?B = Inr an2"
    using procesar_Inr [of radicando, OF radicando_en_0_1] by blast
  have m1: "mediciones_actuales an1 ''imsi-1'' = Some [?A]"
    unfolding procesar_mediciones_actuales [OF an1]
    by (simp add: AnalizadorGSMAvanzado_init_def dd_get_def celda_de_def timedelta_minutes_def)
  have u1: "ubicaciones_estimadas an1 = []"
    unfolding procesar_ubicaciones [OF an1]
    by (simp add: AnalizadorGSMAvanzado_init_def dd_get_def)
  have bd: "estaciones_base (agregar_medicion_celda (triangulador an1) ?B) = bd_ejemplo"
    unfolding procesar_triangulador [OF an1]
    by (simp add: agregar_estaciones_base AnalizadorGSMAvanzado_init_def TrianguladorGSM_init_def)
  have tu: "triangular_ubicacion radicando todos_numpy minimize_sin_exito 601000000
              (agregar_medicion_celda (triangulador an1) ?B) [?A, ?B]
            = Inr (Some \<lparr>latitude = Fin 0, longitude = Fin (900 / (6371 * pi)), precision = Fin 5,
                metodo = ''2_CELDAS'', celdas_utilizadas = [?A, ?B], ubic_timestamp = 601000000\<rparr>)"
    by (simp add: triangular_ubicacion_2 estimar_2_ejemplo [OF bd])
  from estimacion_antes_de_purga [OF an2]
  have "mediciones_actuales an2 ''imsi-1'' = Some [?B] \<and>
        ubicaciones_estimadas an2 = [\<lparr>latitude = Fin 0, longitude = Fin (900 / (6371 * pi)),
            precision = Fin 5, metodo = ''2_CELDAS'', celdas_utilizadas = [?A, ?B],
            ubic_timestamp = 601000000\<rparr>]"
    by (simp add: Let_def m1 u1 dd_get_def tu) (simp add: celda_de_def timedelta_minutes_def)
  with an1 an2 show ?thesis by auto
qed

text \<open>
  C1 as stated fails. In the two calls above the estimate of the second call is computed
  from both measurements, although the first one is 601 s (more than 5 minutes) old at
  that call.
\<close>

theorem purga_antes_de_estimar_counterexample:
  "(case bindE (procesar_medicion_celda radicando todos_numpy minimize_sin_exito 1000000 1000000
                  (AnalizadorGSMAvanzado_init bd_ejemplo) ''imsi-1'' (celda_de ''A'' (- 60) 0))
          (\<lambda>an1. procesar_medicion_celda radicando todos_numpy minimize_sin_exito
                  601000000 601000000 an1 ''imsi-1'' (celda_de ''B'' (- 90) 600000000)) of
      Inl _ \<Rightarrow> False
    | Inr an2 \<Rightarrow> map celdas_utilizadas (ubicaciones_estimadas an2)
                   = [[celda_de ''A'' (- 60) 0, celda_de ''B'' (- 90) 600000000]])
   \<and> timedelta_minutes 5 < 601000000 - timestamp (celda_de ''A'' (- 60) 0)"
proof -
  let ?A = "celda_de ''A'' (- 60) 0" and ?B = "celda_de ''B'' (- 90) 600000000"
  let ?tri = "agregar_medicion_celda (agregar_medicion_celda (TrianguladorGSM_init bd_ejemplo) ?A) ?B"
  have bd: "estaciones_base ?tri = bd_ejemplo"
    by (simp add: agregar_estaciones_base TrianguladorGSM_init_def)
  have tu: "triangular_ubicacion radicando todos_numpy minimize_sin_exito 601000000 ?tri [?A, ?B]
            = Inr (Some \<lparr>latitude = Fin 0, longitude = Fin (900 / (6371 * pi)), precision = Fin 5,
                metodo = ''2_CELDAS'', celdas_utilizadas = [?A, ?B], ubic_timestamp = 601000000\<rparr>)"
    by (simp add: triangular_ubicacion_2 estimar_2_ejemplo [OF bd])
  have fresco: "1000000 - timestamp ?A < timedelta_minutes 5"
    by (simp add: celda_de_def timedelta_minutes_def)
  show ?thesis
    unfolding procesar_forma
    by (simp add: bindE_def Let_def limpiar_mediciones_antiguas_def AnalizadorGSMAvanzado_init_def
          dd_get_def fresco tu)
       (simp add: celda_de_def timedelta_minutes_def)
qed


section \<open>No validation of the identifiers\<close>

lemma agregar_ultimo:
  "dd_get (historial_mediciones (agregar_medicion_celda tri celda)) (clave_celda celda) \<noteq> [] \<and>
   last (dd_get (historial_mediciones (agregar_medicion_celda tri celda)) (clave_celda celda)) = celda"
proof -
  let ?xs = "dd_get (historial_mediciones tri) (clave_celda celda) @ [celda]"
  have "50 < length ?xs \<Longrightarrow> tl ?xs \<noteq> [] \<and> last (tl ?xs) = celda"
    by (cases "dd_get (historial_mediciones tri) (clave_celda celda)") auto
  then show ?thesis
    by (auto simp: agregar_historial Let_def)
qed

text \<open>
  C3 (amended). \<open>procesar_medicion_celda\<close> validates nothing and rejects no measurement on
  account of its identifiers: whatever the strings \<open>mcc\<close>, \<open>mnc\<close>, \<open>lac\<close> and \<open>cell_id\<close>
  are, the measurement becomes the newest entry of the history kept under its key
  \<open>mcc-mnc-lac-cell_id\<close> and is appended to the list of the subject. When the call
  returns, that list has then been purged of the measurements 5 minutes old or older (the
  new one among them, if it is that old); when the call raises, the list is left unpurged
  and the recorded measurement stays in place.
\<close>

theorem ingesta_sin_validacion:
  "(let v = dd_get (mediciones_actuales an) imsi @ [celda]
    in case procesar_medicion_celda rad es_float_python minimize t ahora an imsi celda of
         Inr an' \<Rightarrow>
           dd_get (historial_mediciones (triangulador an')) (clave_celda celda) \<noteq> [] \<and>
           last (dd_get (historial_mediciones (triangulador an')) (clave_celda celda)) = celda \<and>
           mediciones_actuales an' imsi
             = Some (filter (\<lambda>c. ahora - timestamp c < timedelta_minutes 5) v)
       | Inl (e, an') \<Rightarrow>
           dd_get (historial_mediciones (triangulador an')) (clave_celda celda) \<noteq> [] \<and>
           last (dd_get (historial_mediciones (triangulador an')) (clave_celda celda)) = celda \<and>
           mediciones_actuales an' imsi = Some v)"
proof (cases "procesar_medicion_celda rad es_float_python minimize t ahora an imsi celda")
  case (Inr an')
  show ?thesis
    using agregar_ultimo [of "triangulador an" celda] procesar_mediciones_actuales [OF Inr, of imsi]
    by (simp add: Inr Let_def procesar_triangulador [OF Inr])
next
  case (Inl p)
  obtain e an' where p: "p = (e, an')" by (cases p)
  from procesar_lanza [OF Inl [unfolded p]]
  show ?thesis
    using agregar_ultimo [of "triangulador an" celda]
    by (simp add: Inl p Let_def)
qed

text \<open>
  C3 as stated fails. The identifiers \<open>abc\<close>, \<open>x y\<close>, \<open>#\<close>, \<open>??\<close> are no MCC, MNC, LAC or
  cell id; the measurement is accepted all the same, and both the history and the list of
  the subject change.
\<close>

theorem rechazo_malformada_counterexample:
  "(case procesar_medicion_celda radicando todos_numpy minimize_sin_exito 1000000 1000000
           (AnalizadorGSMAvanzado_init Map.empty) ''imsi-1'' celda_malformada of
      Inl _ \<Rightarrow> False
    | Inr an' \<Rightarrow>
        historial_mediciones (triangulador an') ''abc-x y-#-??'' = Some [celda_malformada] \<and>
        mediciones_actuales an' ''imsi-1'' = Some [celda_malformada])
   \<and> historial_mediciones (triangulador (AnalizadorGSMAvanzado_init Map.empty)) ''abc-x y-#-??'' = None
   \<and> mediciones_actuales (AnalizadorGSMAvanzado_init Map.empty) ''imsi-1'' = None"
  unfolding procesar_forma
  by (simp add: Let_def limpiar_mediciones_antiguas_def AnalizadorGSMAvanzado_init_def
        TrianguladorGSM_init_def dd_get_def agregar_medicion_celda_def clave_celda_def
        celda_malformada_def timedelta_minutes_def)

section \<open>The unclamped radicand\<close>

text \<open>
  C8. \<open>_calcular_distancia\<close> does not clamp the radicand. For the towers (8, 0) and
  (-8, 180) the radicand computed in double arithmetic is \<open>1 + 2^-52\<close>, so \<open>1 - a\<close> is
  negative and \<open>math.sqrt\<close> raises \<open>ValueError\<close>.
\<close>

theorem radicando_sin_acotar:
  "radicando_doble 8 0 (- 8) 180 = 1 + 1 / 2 ^ 52 \<and>
   calcular_distancia radicando_doble 8 0 (- 8) 180 = Inl ValueError"
  by (simp add: calcular_distancia_def radicando_doble_def Let_def)

text \<open>
  The exception leaves \<open>procesar_medicion_celda\<close> before the purge. Three calls: a
  measurement for \<open>imsi-2\<close> at 1 s, one for \<open>imsi-1\<close> at 2 s, and a second one for
  \<open>imsi-1\<close> at 700 s. The third call raises in the two-cell fallback, and the measurement
  of \<open>imsi-2\<close>, by then 700 s old, is still in its list.
\<close>

lemma procesar_lanza_ejemplo:
  "(case bindE (procesar_medicion_celda radicando_doble todos_numpy minimize_sin_exito
                  1000000 1000000 (AnalizadorGSMAvanzado_init bd_antipodas) ''imsi-2''
                  (celda_de ''A'' (- 70) 0))
          (\<lambda>an1. bindE (procesar_medicion_celda radicando_doble todos_numpy minimize_sin_exito
                    2000000 2000000 an1 ''imsi-1'' (celda_de ''A'' (- 60) 1000000))
          (\<lambda>an2. procesar_medicion_celda radicando_doble todos_numpy minimize_sin_exito
                    700000000 700000000 an2 ''imsi-1'' (celda_de ''B'' (- 90) 699000000))) of
      Inr _ \<Rightarrow> False
    | Inl (e, an3) \<Rightarrow>
        e = ValueError \<and>
        mediciones_actuales an3 ''imsi-2'' = Some [celda_de ''A'' (- 70) 0] \<and>
        mediciones_actuales an3 ''imsi-1''
          = Some [celda_de ''A'' (- 60) 1000000, celda_de ''B'' (- 90) 699000000])"
proof -
  let ?A = "celda_de ''A'' (- 60) 1000000" and ?B = "celda_de ''B'' (- 90) 699000000"
  have cu: "celdas_con_ubicacion tri [?A, ?B] =
              [(?A, \<lparr>lat = 8, lon = 0\<rparr>), (?B, \<lparr>lat = - 8, lon = 180\<rparr>)]"
    if "estaciones_base tri = bd_antipodas" for tri
    using that
    by (simp add: celdas_con_ubicacion_def obtener_ubicacion_celda_def clave_celda_def
          celda_de_def bd_antipodas_def)
  have tu: "triangular_ubicacion radicando_doble todos_numpy minimize_sin_exito 700000000 tri [?A, ?B]
              = Inl ValueError"
    if "estaciones_base tri = bd_antipodas" for tri
    by (simp add: triangular_ubicacion_2 estimar_ubicacion_2_celdas_def cu [OF that] Let_def
          bindE_def calcular_distancia_def radicando_doble_def)
  show ?thesis
    unfolding procesar_forma
    by (simp add: bindE_def Let_def limpiar_mediciones_antiguas_def AnalizadorGSMAvanzado_init_def
          TrianguladorGSM_init_def dd_get_def tu agregar_estaciones_base)
       (simp add: celda_de_def timedelta_minutes_def)
qed


section \<open>Weighted centroid\<close>

lemma suma_no_positiva: "\<forall>s \<in> set ss. s \<le> (0::int) \<Longrightarrow> sum_list ss \<le> 0"
  by (induction ss) auto

lemma suma_positiva:
  "\<forall>s \<in> set ss. (0::int) \<le> s \<Longrightarrow> \<exists>s \<in> set ss. 0 < s \<Longrightarrow> 0 < sum_list ss"
proof (induction ss)
  case Nil
  then show ?case by simp
next
  case (Cons a ss)
  have "0 \<le> sum_list ss" using Cons.prems(1) by (simp add: sum_list_nonneg)
  moreover have "0 \<le> a" using Cons.prems(1) by simp
  moreover have "0 < a \<or> 0 < sum_list ss" using Cons by auto
  ultimately show ?case by auto
qed

lemma suma_acotada:
  "\<forall>s \<in> set ss. - B \<le> s \<and> s \<le> (B::int) \<Longrightarrow>
   - (int (length ss) * B) \<le> sum_list ss \<and> sum_list ss \<le> int (length ss) * B"
  by (induction ss) (auto simp: algebra_simps)

lemma suma_sin_desborde:
  assumes "\<forall>s \<in> set ss. - (2 ^ 31) \<le> s \<and> s < (2 ^ 31 :: int)" and "length ss < 2 ^ 32"
  shows "np_sum_int64 ss = sum_list ss"
proof -
  have "\<forall>s \<in> set ss. - (2 ^ 31) \<le> s \<and> s \<le> (2 ^ 31 :: int)" using assms(1) by auto
  from suma_acotada [OF this]
  have b: "- (int (length ss) * 2 ^ 31) \<le> sum_list ss" "sum_list ss \<le> int (length ss) * 2 ^ 31"
    by simp_all
  have "int (length ss) \<le> 2 ^ 32 - 1" using assms(2) by simp
  then have "int (length ss) * 2 ^ 31 \<le> (2 ^ 32 - 1) * (2 ^ 31 :: int)"
    by (rule mult_right_mono) simp
  also have "\<dots> < 2 ^ 63" by simp
  finally have "int (length ss) * 2 ^ 31 < (2 ^ 63 :: int)" .
  with b have "- (2 ^ 63) \<le> sum_list ss" "sum_list ss < 2 ^ 63" by simp_all
  then show ?thesis unfolding np_sum_int64_def by (rule int64_id)
qed

text \<open>
  C5 (amended). For signal strengths that fit 32 bits (and fewer than \<open>2^32\<close> pairs, so
  that \<open>np.sum\<close> does not wrap around), \<open>_metodo_centroide\<close> chooses its weights by the sign
  of the sum of the strengths: when the sum is positive the weights are the strengths
  divided by the sum, otherwise every weight is \<open>1/n\<close>. The weights sum to 1, and the
  position is the weighted sum of the tower coordinates. All strengths \<open>\<le> 0\<close> gives equal
  weights; all strengths \<open>\<ge> 0\<close> with one positive gives the normalised strengths.
\<close>

theorem centroide_pesos_segun_suma:
  assumes "celdas \<noteq> []"
    and "\<forall>(c, u) \<in> set celdas. - (2 ^ 31) \<le> signal_strength c \<and> signal_strength c < 2 ^ 31"
    and "length celdas < 2 ^ 32"
  shows "(let ss = map (\<lambda>(c, _). signal_strength c) celdas;
              lats = map (\<lambda>(_, u). lat u) celdas;
              lons = map (\<lambda>(_, u). lon u) celdas;
              iguales = replicate (length ss) (1 / real (length ss));
              normalizados = map (\<lambda>s. real_of_int s / real_of_int (sum_list ss)) ss;
              w = (if 0 < sum_list ss then normalizados else iguales)
          in sum_list w = 1 \<and>
             (\<exists>e. metodo_centroide t celdas = Inr e \<and>
                  latitude e = Fin (sum_list (map2 (*) lats w)) \<and>
                  longitude e = Fin (sum_list (map2 (*) lons w))) \<and>
             ((\<forall>s \<in> set ss. s \<le> 0) \<longrightarrow> w = iguales) \<and>
             ((\<forall>s \<in> set ss. 0 \<le> s) \<and> (\<exists>s \<in> set ss. 0 < s) \<longrightarrow> w = normalizados))"
proof -
  let ?ss = "map (\<lambda>(c, _). signal_strength c) celdas"
  have "\<forall>s \<in> set ?ss. - (2 ^ 31) \<le> s \<and> s < 2 ^ 31" using assms(2) by auto
  moreover have "length ?ss < 2 ^ 32" using assms(3) by simp
  ultimately have sd: "np_sum_int64 ?ss = sum_list ?ss" by (rule suma_sin_desborde)
  have w: "pesos_centroide ?ss =
             (if 0 < sum_list ?ss
              then map (\<lambda>s. real_of_int s / real_of_int (sum_list ?ss)) ?ss
              else replicate (length ?ss) (1 / real (length ?ss)))"
    by (simp add: pesos_centroide_def sd map_replicate_const)
  have ne: "?ss \<noteq> []" using assms(1) by simp
  have s1: "sum_list (pesos_centroide ?ss) = 1"
    using ne by (simp add: pesos_centroide_suma sd)
  have a: "(\<forall>s \<in> set ?ss. s \<le> 0) \<longrightarrow> \<not> 0 < sum_list ?ss"
    using suma_no_positiva [of ?ss] by auto
  have b: "(\<forall>s \<in> set ?ss. 0 \<le> s) \<and> (\<exists>s \<in> set ?ss. 0 < s) \<longrightarrow> 0 < sum_list ?ss"
    using suma_positiva [of ?ss] by blast
  have e: "\<exists>e. metodo_centroide t celdas = Inr e \<and>
             latitude e = Fin (sum_list (map2 (*) (map (\<lambda>(_, u). lat u) celdas) (pesos_centroide ?ss))) \<and>
             longitude e = Fin (sum_list (map2 (*) (map (\<lambda>(_, u). lon u) celdas) (pesos_centroide ?ss)))"
    unfolding metodo_centroide_eq [OF assms(1)] Let_def s1 by simp
  show ?thesis
    unfolding Let_def w [symmetric]
    using s1 a b e by (simp add: w)
qed

text \<open>Strengths 6 and 2: weights 3/4 and 1/4.\<close>

theorem centroide_pesos_segun_suma_witness:
  "(let celdas = [par_ejemplo ''A'' 6 0 0, par_ejemplo ''B'' 2 4 8]
    in celdas \<noteq> [] \<and>
       (\<forall>(c, u) \<in> set celdas. - (2 ^ 31) \<le> signal_strength c \<and> signal_strength c < 2 ^ 31) \<and>
       length celdas < 2 ^ 32 \<and>
       (\<exists>e. metodo_centroide 0 celdas = Inr e \<and> latitude e = Fin 1 \<and> longitude e = Fin 2))"
  using centroide_pesos_segun_suma [of "[par_ejemplo ''A'' 6 0 0, par_ejemplo ''B'' 2 4 8]" 0]
  by (simp add: Let_def par_ejemplo_def celda_de_def)

text \<open>
  C5 as stated fails. With the strengths 5 and -10 one strength is positive, yet the sum
  is -5 and the weights are 1/2 and 1/2, not the normalised strengths -1 and 2.
\<close>

theorem pesos_crudos_counterexample:
  "pesos_centroide [5, - 10] = [1 / 2, 1 / 2] \<and>
   map (\<lambda>s. real_of_int s / real_of_int (sum_list [5, - 10])) [5, - 10] = [- 1, 2] \<and>
   (case metodo_centroide 0 [par_ejemplo ''A'' 5 0 0, par_ejemplo ''B'' (- 10) 3 0] of
      Inl _ \<Rightarrow> False
    | Inr e \<Rightarrow> latitude e = Fin (3 / 2) \<and> longitude e = Fin 0)"
  by (simp add: pesos_centroide_def np_sum_int64_def int64_def metodo_centroide_def Let_def
        np_average_def bindE_def par_ejemplo_def celda_de_def)

lemma media_ponderada_en_rango:
  assumes "length xs = length ws" and "xs \<noteq> []" and "\<forall>w \<in> set ws. (0::real) \<le> w"
    and "0 < sum_list ws"
  shows "Min (set xs) \<le> sum_list (map2 (*) xs ws) / sum_list ws \<and>
         sum_list (map2 (*) xs ws) / sum_list ws \<le> Max (set xs)"
proof -
  have "\<forall>x \<in> set xs. Min (set xs) \<le> x" by simp
  from suma_ponderada_cota_inf [OF assms(1,3) this]
  have lo: "Min (set xs) \<le> sum_list (map2 (*) xs ws) / sum_list ws"
    using assms(4) by (simp add: pos_le_divide_eq)
  have "\<forall>x \<in> set xs. x \<le> Max (set xs)" by simp
  from suma_ponderada_cota_sup [OF assms(1,3) this]
  have "sum_list (map2 (*) xs ws) / sum_list ws \<le> Max (set xs)"
    using assms(4) by (simp add: pos_divide_le_eq)
  with lo show ?thesis by simp
qed

text \<open>
  C7. On at least two resolved pairs whose signal strengths are all positive,
  \<open>_metodo_centroide\<close> returns an estimate, whose latitude lies between the smallest and
  the largest tower latitude and whose longitude lies between the smallest and the largest
  tower longitude.
\<close>

theorem centroide_en_caja:
  assumes "2 \<le> length celdas"
    and "\<forall>(c, u) \<in> set celdas. 0 < signal_strength c"
  shows "\<exists>e la lo. metodo_centroide t celdas = Inr e \<and>
           latitude e = Fin la \<and> longitude e = Fin lo \<and>
           Min (set (map (\<lambda>(_, u). lat u) celdas)) \<le> la \<and>
           la \<le> Max (set (map (\<lambda>(_, u). lat u) celdas)) \<and>
           Min (set (map (\<lambda>(_, u). lon u) celdas)) \<le> lo \<and>
           lo \<le> Max (set (map (\<lambda>(_, u). lon u) celdas))"
proof -
  let ?ss = "map (\<lambda>(c, _). signal_strength c) celdas"
  let ?w = "pesos_centroide ?ss"
  let ?lats = "map (\<lambda>(_, u). lat u) celdas" and ?lons = "map (\<lambda>(_, u). lon u) celdas"
  have ne: "celdas \<noteq> []" using assms(1) by auto
  then have ne': "?ss \<noteq> []" by simp
  have pos: "\<forall>s \<in> set ?ss. 0 < s" using assms(2) by auto
  have wpos: "\<forall>w \<in> set ?w. 0 < w" using pesos_centroide_pos [OF pos] by auto
  then have w0: "\<forall>w \<in> set ?w. 0 \<le> w" by (auto intro: less_imp_le)
  have "?w \<noteq> []" using ne' length_pesos_centroide [of ?ss] by auto
  then have s1: "0 < sum_list ?w" using wpos by (rule suma_lista_pos)
  have l1: "length ?lats = length ?w" and l2: "length ?lons = length ?w"
    by (simp_all add: length_pesos_centroide)
  have n1: "?lats \<noteq> []" and n2: "?lons \<noteq> []" using ne by simp_all
  note r1 = media_ponderada_en_rango [OF l1 n1 w0 s1]
  note r2 = media_ponderada_en_rango [OF l2 n2 w0 s1]
  show ?thesis
    unfolding metodo_centroide_eq [OF ne] Let_def
    using r1 r2 by simp
qed

text \<open>Two towers at (0, 0) and (4, 8) with the strengths 6 and 2.\<close>

theorem centroide_en_caja_witness:
  "(let celdas = [par_ejemplo ''A'' 6 0 0, par_ejemplo ''B'' 2 4 8]
    in 2 \<le> length celdas \<and> (\<forall>(c, u) \<in> set celdas. 0 < signal_strength c) \<and>
       (\<exists>e la lo. metodo_centroide 0 celdas = Inr e \<and>
           latitude e = Fin la \<and> longitude e = Fin lo \<and>
           0 \<le> la \<and> la \<le> 4 \<and> 0 \<le> lo \<and> lo \<le> 8))"
  using centroide_en_caja [of "[par_ejemplo ''A'' 6 0 0, par_ejemplo ''B'' 2 4 8]" 0]
  by (simp add: Let_def par_ejemplo_def celda_de_def)

text \<open>
  C9. The invariant \<open>precision \<ge> 0\<close> fails in \<open>_metodo_centroide\<close>: with the strengths 3
  and -1 the sum is positive, the weights are 3/2 and -1/2, the weighted variance is -3/4
  and the precision is \<open>np.sqrt(-0.75)\<close>, nan.
\<close>

theorem centroide_precision_nan:
  "metodo_centroide 0 [par_ejemplo ''A'' 3 0 0, par_ejemplo ''B'' (- 1) 1 0] =
     Inr \<lparr>latitude = Fin (- 1 / 2), longitude = Fin 0, precision = NaN,
          metodo = ''CENTROIDE'',
          celdas_utilizadas = [celda_de ''A'' 3 0, celda_de ''B'' (- 1) 0],
          ubic_timestamp = 0\<rparr>"
  by (simp add: pesos_centroide_def np_sum_int64_def int64_def metodo_centroide_def Let_def
        np_average_def bindE_def np_sqrt_def par_ejemplo_def celda_de_def power2_eq_square)


section \<open>Combiner weights\<close>

text \<open>
  C6 (amended). On a non-empty list of estimates with finite coordinates and precisions
  \<open>\<ge> 0\<close>, \<open>_combinar_resultados\<close> gives each input the weight \<open>1/(precision + 0.001)\<close>
  divided by the sum of these; the weights sum to 1; latitude, longitude and precision of
  the result are the weighted sums of the inputs' latitudes, longitudes and precisions; the
  method is \<open>COMBINADO\<close> and the cells are the concatenation of the inputs' cells. For the
  precisions 1 and 0.001 the weights are 2/1003 and 1001/1003: a ratio of 500.5 to 1.
\<close>

theorem combinar_media_ponderada:
  assumes "resultados \<noteq> []"
    and "map latitude resultados = map Fin las"
    and "map longitude resultados = map Fin los"
    and "map precision resultados = map Fin ps"
    and "\<forall>p \<in> set ps. 0 \<le> p"
  shows "(let inversos = map (\<lambda>p. 1 / (p + 1 / 1000)) ps;
              w = map (\<lambda>x. x / sum_list inversos) inversos
          in sum_list w = 1 \<and>
             combinar_resultados es_float_python t resultados =
               Inr \<lparr>latitude = Fin (sum_list (map2 (*) las w)),
                    longitude = Fin (sum_list (map2 (*) los w)),
                    precision = Fin (sum_list (map2 (*) ps w)),
                    metodo = ''COMBINADO'',
                    celdas_utilizadas = concat (map celdas_utilizadas resultados),
                    ubic_timestamp = t\<rparr> \<and>
             (ps = [1, 1 / 1000] \<longrightarrow> w = [2 / 1003, 1001 / 1003]))"
proof -
  have ne: "ps \<noteq> []" using assms(1,4) by (metis map_is_Nil_conv)
  have w: "map (\<lambda>x. x / sum_list (map (\<lambda>p. 1 / (p + 1 / 1000)) ps)) (map (\<lambda>p. 1 / (p + 1 / 1000)) ps)
             = map (\<lambda>p. (1 / (p + 1 / 1000)) / sum_list (map (\<lambda>q. 1 / (q + 1 / 1000)) ps)) ps"
    by simp
  have dos: "ps = [1, 1 / 1000] \<Longrightarrow>
      map (\<lambda>p. (1 / (p + 1 / 1000)) / sum_list (map (\<lambda>q. 1 / (q + 1 / 1000)) ps)) ps
        = [2 / 1003, 1001 / 1003]"
    by simp
  show ?thesis
    unfolding Let_def w
    using suma_pesos_normalizados [OF ne assms(5)]
      combinar_resultados_Fin [OF assms, of es_float_python t] dos
    by (simp add: Let_def)
qed

text \<open>
  Inputs at (0, 0) with precision 1 and at (1003, 2006) with precision 0.001: the result
  is at (1001, 2002).
\<close>

theorem combinar_media_ponderada_witness:
  "(let resultados = [estimacion_ejemplo 0 0 1 ''RSSI'', estimacion_ejemplo 1003 2006 (1 / 1000) ''CENTROIDE'']
    in resultados \<noteq> [] \<and>
       map latitude resultados = map Fin [0, 1003] \<and>
       map longitude resultados = map Fin [0, 2006] \<and>
       map precision resultados = map Fin [1, 1 / 1000] \<and>
       (\<forall>p \<in> set [1, 1 / 1000 :: real]. 0 \<le> p) \<and>
       combinar_resultados todos_numpy 7 resultados =
         Inr \<lparr>latitude = Fin 1001, longitude = Fin 2002, precision = Fin (3001 / 1003000),
              metodo = ''COMBINADO'',
              celdas_utilizadas = [celda_de ''A'' (- 60) 0, celda_de ''B'' (- 90) 0,
                                   celda_de ''A'' (- 60) 0, celda_de ''B'' (- 90) 0],
              ubic_timestamp = 7\<rparr>)"
  using combinar_media_ponderada [of "[estimacion_ejemplo 0 0 1 ''RSSI'',
          estimacion_ejemplo 1003 2006 (1 / 1000) ''CENTROIDE'']" "[0, 1003]" "[0, 2006]"
          "[1, 1 / 1000]" todos_numpy 7]
  by (simp add: Let_def estimacion_ejemplo_def)

text \<open>
  C6 as stated fails in its last part: the ratio of the two weights is 500.5, not about
  1000.
\<close>

theorem razon_de_pesos_counterexample:
  "(case pesos_combinacion [Fin 1, Fin (1 / 1000)] of
      [Fin w1, Fin w2] \<Rightarrow> w2 / w1 = 1001 / 2 \<and> \<not> 900 \<le> w2 / w1
    | _ \<Rightarrow> False)"
  by (simp add: pesos_combinacion_def fsum_def Let_def)

section \<open>Two-cell fallback\<close>

text \<open>
  C4 (amended). For two resolved cells with the strengths -60 and -90 whose towers are 10 km
  apart, \<open>_estimar_ubicacion_2_celdas\<close> returns the midpoint of the two tower coordinates
  (the sum of the strengths is not positive, so both weights are 1/2) with precision 5.
\<close>

theorem dos_celdas_punto_medio:
  assumes "obtener_ubicacion_celda tri a = Some ua"
    and "obtener_ubicacion_celda tri b = Some ub"
    and "signal_strength a = - 60"
    and "signal_strength b = - 90"
    and "calcular_distancia rad (lat ua) (lon ua) (lat ub) (lon ub) = Inr 10"
  shows "estimar_ubicacion_2_celdas rad tri t [a, b] =
           Inr (Some \<lparr>latitude = Fin ((lat ua + lat ub) / 2),
                      longitude = Fin ((lon ua + lon ub) / 2),
                      precision = Fin 5, metodo = ''2_CELDAS'', celdas_utilizadas = [a, b],
                      ubic_timestamp = t\<rparr>)"
  using assms
  by (simp add: estimar_ubicacion_2_celdas_def celdas_con_ubicacion_def Let_def bindE_def
        add_divide_distrib)

text \<open>Two towers on the equator, 10 km apart.\<close>

theorem dos_celdas_punto_medio_witness:
  "(let tri = TrianguladorGSM_init bd_ejemplo;
        a = celda_de ''A'' (- 60) 0;
        b = celda_de ''B'' (- 90) 0;
        ua = \<lparr>lat = 0, lon = 0\<rparr>;
        ub = \<lparr>lat = 0, lon = 1800 / (6371 * pi)\<rparr>
    in obtener_ubicacion_celda tri a = Some ua \<and>
       obtener_ubicacion_celda tri b = Some ub \<and>
       signal_strength a = - 60 \<and> signal_strength b = - 90 \<and>
       calcular_distancia radicando (lat ua) (lon ua) (lat ub) (lon ub) = Inr 10 \<and>
       estimar_ubicacion_2_celdas radicando tri 0 [a, b] =
         Inr (Some \<lparr>latitude = Fin 0, longitude = Fin (900 / (6371 * pi)),
                    precision = Fin 5, metodo = ''2_CELDAS'', celdas_utilizadas = [a, b],
                    ubic_timestamp = 0\<rparr>))"
proof -
  let ?tri = "TrianguladorGSM_init bd_ejemplo"
  let ?a = "celda_de ''A'' (- 60) 0" and ?b = "celda_de ''B'' (- 90) 0"
  let ?ua = "\<lparr>lat = 0, lon = 0\<rparr>" and ?ub = "\<lparr>lat = 0, lon = 1800 / (6371 * pi)\<rparr>"
  have h1: "obtener_ubicacion_celda ?tri ?a = Some ?ua"
    by (simp add: obtener_ubicacion_celda_def TrianguladorGSM_init_def clave_celda_def
          celda_de_def bd_ejemplo_def)
  have h2: "obtener_ubicacion_celda ?tri ?b = Some ?ub"
    by (simp add: obtener_ubicacion_celda_def TrianguladorGSM_init_def clave_celda_def
          celda_de_def bd_ejemplo_def)
  have h3: "signal_strength ?a = - 60" and h4: "signal_strength ?b = - 90"
    by (simp_all add: celda_de_def)
  have h5: "calcular_distancia radicando (lat ?ua) (lon ?ua) (lat ?ub) (lon ?ub) = Inr 10"
    using distancia_10_km by simp
  show ?thesis
    unfolding Let_def
    using h1 h2 h3 h4 h5 dos_celdas_punto_medio [OF h1 h2 h3 h4 h5, of 0]
    by simp
qed

text \<open>
  C4 as stated fails. For the two towers on the equator, 10 km apart, the estimate is not
  strictly closer to the first tower: it is as far from one as from the other.
\<close>

theorem mas_cerca_de_A_counterexample:
  "calcular_distancia radicando 0 0 0 (1800 / (6371 * pi)) = Inr 10 \<and>
   (case estimar_ubicacion_2_celdas radicando (TrianguladorGSM_init bd_ejemplo) 0
           [celda_de ''A'' (- 60) 0, celda_de ''B'' (- 90) 0] of
      Inr (Some e) \<Rightarrow>
        (case (latitude e, longitude e) of
           (Fin la, Fin lo) \<Rightarrow>
              (case (calcular_distancia radicando la lo 0 0,
                     calcular_distancia radicando la lo 0 (1800 / (6371 * pi))) of
                 (Inr dA, Inr dB) \<Rightarrow> \<not> dA < dB
               | _ \<Rightarrow> False)
         | _ \<Rightarrow> False)
    | _ \<Rightarrow> False)"
proof -
  have bd: "estaciones_base (TrianguladorGSM_init bd_ejemplo) = bd_ejemplo"
    by (simp add: TrianguladorGSM_init_def)
  have eq: "calcular_distancia radicando 0 (1800 / (6371 * pi) / 2) 0 0
              = calcular_distancia radicando 0 (1800 / (6371 * pi) / 2) 0 (1800 / (6371 * pi))"
    by (rule punto_medio_equidistante)
  obtain d where d: "calcular_distancia radicando 0 (900 / (6371 * pi)) 0 0 = Inr d"
    using calcular_distancia_Inr [of radicando 0 "900 / (6371 * pi)" 0 0] radicando_en_0_1 by blast
  have d': "calcular_distancia radicando 0 (900 / (6371 * pi)) 0 (1800 / (6371 * pi)) = Inr d"
    using eq d by simp
  show ?thesis
    by (simp add: distancia_10_km estimar_2_ejemplo [OF bd] d d')
qed

end
